theory Spec2Isabelle
  imports Complex_Main "HOL-Library.Word"
begin

section \<open>Weather dashboard (run.py): helpers\<close>

text \<open>
  Python exceptions that the modelled code can meet are values of \<open>py_error\<close>; a
  computation that may raise returns \<open>py_error + 'a\<close> with \<open>Inl\<close> for the exception.
\<close>

datatype py_error = KeyError | TypeError | ValueError

subsection \<open>first_match\<close>

text \<open>
  \<^verbatim>\<open>sub in name\<close> on Python strings: \<open>sub\<close> occurs in \<open>name\<close> as a contiguous block.
  The empty string occurs in every string.
\<close>

definition starts_with :: "'c list \<Rightarrow> 'c list \<Rightarrow> bool" where
  "starts_with sub name = (take (length sub) name = sub)"

fun str_in :: "'c list \<Rightarrow> 'c list \<Rightarrow> bool" where
  "str_in sub [] = (sub = [])"
| "str_in sub (c # cs) = (starts_with sub (c # cs) \<or> str_in sub cs)"

text \<open>
  The inner loop \<^verbatim>\<open>for i, name in enumerate(lowered): if sub in name: return cols[i]\<close>,
  as a scan of the enumerated list that yields the position of the hit.
\<close>

fun scan_lowered :: "'c list \<Rightarrow> (nat \<times> 'c list) list \<Rightarrow> nat option" where
  "scan_lowered sub [] = None"
| "scan_lowered sub ((i, name) # rest) =
     (if str_in sub name then Some i else scan_lowered sub rest)"

text \<open>The outer loop \<^verbatim>\<open>for sub in substrings\<close>; falling out of it returns \<^verbatim>\<open>None\<close>.\<close>

fun first_match_loop :: "'c list list \<Rightarrow> 'c list list \<Rightarrow> 'c list list \<Rightarrow> 'c list option" where
  "first_match_loop cols lowered [] = None"
| "first_match_loop cols lowered (sub # substrings) =
     (case scan_lowered sub (enumerate 0 lowered) of
        Some i \<Rightarrow> Some (cols ! i)
      | None \<Rightarrow> first_match_loop cols lowered substrings)"

text \<open>
  \<^verbatim>\<open>str.lower\<close> belongs to the Python runtime, so it is the parameter \<open>lower\<close>; strings
  are lists over any character type \<open>'c\<close>.
\<close>

definition first_match :: "('c list \<Rightarrow> 'c list) \<Rightarrow> 'c list list \<Rightarrow> 'c list list \<Rightarrow> 'c list option" where
  "first_match lower cols substrings =
     (let lowered = map lower cols in first_match_loop cols lowered substrings)"

text \<open>A lower-casing of ASCII letters, for running \<open>first_match\<close> on concrete names.\<close>

definition ascii_lower :: "char \<Rightarrow> char" where
  "ascii_lower c =
     (if 65 \<le> (of_char c :: nat) \<and> (of_char c :: nat) \<le> 90
      then char_of (of_char c + 32 :: nat) else c)"

definition str_lower :: "string \<Rightarrow> string" where
  "str_lower s = map ascii_lower s"

subsection \<open>safe_index\<close>

text \<open>\<^verbatim>\<open>list.index(value)\<close>: the first position of the value, \<^verbatim>\<open>ValueError\<close> if absent.\<close>

fun list_index_from :: "nat \<Rightarrow> 'a list \<Rightarrow> 'a \<Rightarrow> py_error + nat" where
  "list_index_from k [] v = Inl ValueError"
| "list_index_from k (x # xs) v = (if x = v then Inr k else list_index_from (Suc k) xs v)"

definition list_index :: "'a list \<Rightarrow> 'a \<Rightarrow> py_error + nat" where
  "list_index xs v = list_index_from 0 xs v"

text \<open>
  The body of the \<^verbatim>\<open>try\<close> block. \<open>value\<close> is \<open>None\<close> for Python's \<^verbatim>\<open>None\<close>;
  \<open>offset\<close> and \<open>fallback\<close> are Python integers, on which \<^verbatim>\<open>int(...)\<close> is the identity.
\<close>

definition safe_index_try :: "'a list \<Rightarrow> 'a option \<Rightarrow> int \<Rightarrow> int \<Rightarrow> py_error + int" where
  "safe_index_try options val offset fallback =
     (case val of
        None \<Rightarrow> Inr fallback
      | Some v \<Rightarrow>
          (case list_index options v of
             Inl e \<Rightarrow> Inl e
           | Inr p \<Rightarrow> Inr (offset + int p)))"

text \<open>\<^verbatim>\<open>except Exception: return int(fallback)\<close> catches whatever the body raised.\<close>

definition safe_index :: "'a list \<Rightarrow> 'a option \<Rightarrow> int \<Rightarrow> int \<Rightarrow> py_error + int" where
  "safe_index options val offset fallback =
     (case safe_index_try options val offset fallback of
        Inl e \<Rightarrow> Inr fallback
      | Inr n \<Rightarrow> Inr n)"

section \<open>Tables\<close>

text \<open>
  A loaded \<^verbatim>\<open>DataFrame\<close> is an ordered list of named columns. A column is either of
  \<^verbatim>\<open>object\<close> dtype, holding cells as the loader left them (a number, a text, or a
  missing entry), or of \<^verbatim>\<open>float64\<close> dtype, where \<open>None\<close> is \<^verbatim>\<open>NaN\<close>. In a table
  numbers are real numbers, which is enough for which entries are missing and which rows
  and columns exist. The machine arithmetic of line 106, on \<^verbatim>\<open>int64\<close> and
  \<^verbatim>\<open>float64\<close> columns, is modelled on its own by \<open>to_celsius\<close> below.
\<close>

datatype cell = Num real | Text string | NA

datatype column = Object "cell list" | Float64 "real option list"

type_synonym table = "(string \<times> column) list"

fun col_len :: "column \<Rightarrow> nat" where
  "col_len (Object cs) = length cs"
| "col_len (Float64 xs) = length xs"

definition column_names :: "table \<Rightarrow> string list" where
  "column_names t = map fst t"

definition nrows :: "table \<Rightarrow> nat" where
  "nrows t = (case t of [] \<Rightarrow> 0 | (name, c) # rest \<Rightarrow> col_len c)"

text \<open>\<^verbatim>\<open>df.empty\<close>: no columns or no rows.\<close>

definition df_empty :: "table \<Rightarrow> bool" where
  "df_empty t = (t = [] \<or> nrows t = 0)"

text \<open>The loader gives a table distinct column names and columns of one length.\<close>

definition wf_table :: "table \<Rightarrow> bool" where
  "wf_table t = (distinct (column_names t) \<and> list_all (\<lambda>(name, c). col_len c = nrows t) t)"

text \<open>Every column of a table has \<open>n\<close> entries.\<close>

definition all_len :: "table \<Rightarrow> nat \<Rightarrow> bool" where
  "all_len t n = (\<forall>(name, c) \<in> set t. col_len c = n)"

text \<open>\<^verbatim>\<open>work[name]\<close> raises \<^verbatim>\<open>KeyError\<close> for a name that is not a column.\<close>

fun get_col :: "table \<Rightarrow> string \<Rightarrow> py_error + column" where
  "get_col [] name = Inl KeyError"
| "get_col ((n, c) # t) name = (if n = name then Inr c else get_col t name)"

text \<open>\<^verbatim>\<open>work[name] = c\<close> replaces the column of that name in place, or appends a new one.\<close>

fun set_col :: "table \<Rightarrow> string \<Rightarrow> column \<Rightarrow> table" where
  "set_col [] name c = [(name, c)]"
| "set_col ((n, c0) # t) name c =
     (if n = name then (n, c) # t else (n, c0) # set_col t name c)"

subsection \<open>Numeric coercion\<close>

text \<open>
  \<^verbatim>\<open>pd.to_numeric(col, errors="coerce")\<close>: a number stays, a text becomes what the
  library's number parser \<open>parse\<close> reads from it and missing if it reads nothing. The parser
  is a parameter.
\<close>

fun coerce :: "(string \<Rightarrow> real option) \<Rightarrow> cell \<Rightarrow> real option" where
  "coerce parse (Num r) = Some r"
| "coerce parse (Text s) = parse s"
| "coerce parse NA = None"

fun to_numeric :: "(string \<Rightarrow> real option) \<Rightarrow> column \<Rightarrow> column" where
  "to_numeric parse (Object cs) = Float64 (map (coerce parse) cs)"
| "to_numeric parse (Float64 xs) = Float64 xs"

text \<open>\<^verbatim>\<open>work[name] = pd.to_numeric(work[name], errors="coerce")\<close>\<close>

definition coerce_column :: "(string \<Rightarrow> real option) \<Rightarrow> table \<Rightarrow> string \<Rightarrow> py_error + table" where
  "coerce_column parse work name =
     (case get_col work name of
        Inl e \<Rightarrow> Inl e
      | Inr c \<Rightarrow> Inr (set_col work name (to_numeric parse c)))"

subsection \<open>Unit conversion\<close>

definition degree :: char where
  "degree = CHR 0xB0"

definition deg_C :: string where
  "deg_C = [degree, CHR ''C'']"

definition deg_F :: string where
  "deg_F = [degree, CHR ''F'']"

definition temperature_label :: string where
  "temperature_label = ''Temperature ('' @ [degree] @ ''C)''"

text \<open>
  \<^verbatim>\<open>(col - 32) * 5.0 / 9.0\<close> on a float column works entry by entry and leaves \<^verbatim>\<open>NaN\<close>
  as it is. Arithmetic on a column of texts raises \<^verbatim>\<open>TypeError\<close>. In the table model
  the three operations are exact.
\<close>

fun fahrenheit_to_celsius :: "column \<Rightarrow> py_error + column" where
  "fahrenheit_to_celsius (Float64 xs) =
     Inr (Float64 (map (map_option (\<lambda>f. (f - 32) * 5 / 9)) xs))"
| "fahrenheit_to_celsius (Object cs) = Inl TypeError"

text \<open>Lines 105 to 108: the \<^verbatim>\<open>Temperature_C\<close> column.\<close>

definition add_celsius :: "table \<Rightarrow> string \<Rightarrow> string \<Rightarrow> py_error + table" where
  "add_celsius work temp_col unit =
     (case get_col work temp_col of
        Inl e \<Rightarrow> Inl e
      | Inr tc \<Rightarrow>
          if unit = deg_F
          then (case fahrenheit_to_celsius tc of
                  Inl e \<Rightarrow> Inl e
                | Inr c \<Rightarrow> Inr (set_col work ''Temperature_C'' c))
          else Inr (set_col work ''Temperature_C'' tc))"

text \<open>Lines 97 to 108: the working table.\<close>

definition prepare ::
  "(string \<Rightarrow> real option) \<Rightarrow> table \<Rightarrow> string \<Rightarrow> string \<Rightarrow> string \<Rightarrow> py_error + table" where
  "prepare parse df temp_col hum_col unit =
     (case coerce_column parse df temp_col of
        Inl e \<Rightarrow> Inl e
      | Inr work1 \<Rightarrow>
          (case (if hum_col \<noteq> ''<none>'' then coerce_column parse work1 hum_col else Inr work1) of
             Inl e \<Rightarrow> Inl e
           | Inr work2 \<Rightarrow> add_celsius work2 temp_col unit))"

subsection \<open>The conversion in machine arithmetic\<close>

text \<open>
  A \<^verbatim>\<open>float64\<close> value that is not \<^verbatim>\<open>NaN\<close> is a finite number or an infinity. After
  \<^verbatim>\<open>pd.to_numeric\<close> the temperature column is of \<^verbatim>\<open>float64\<close> dtype, with \<open>None\<close> for
  \<^verbatim>\<open>NaN\<close>, or of \<^verbatim>\<open>int64\<close> dtype (a column of integers only), which has no missing
  entries.
\<close>

datatype f64 = Fin real | PInf | NInf

datatype series = F64 "f64 option list" | I64 "64 word list"

text \<open>
  A \<^verbatim>\<open>float64\<close> operation yields the exact result rounded to \<^verbatim>\<open>float64\<close>. The rounding
  \<open>rnd\<close>, which gives an infinity on overflow, is a parameter. The three operations of
  line 106 keep an infinity as it is.
\<close>

fun f64_sub32 :: "(real \<Rightarrow> f64) \<Rightarrow> f64 \<Rightarrow> f64" where
  "f64_sub32 rnd (Fin x) = rnd (x - 32)"
| "f64_sub32 rnd PInf = PInf"
| "f64_sub32 rnd NInf = NInf"

fun f64_mul5 :: "(real \<Rightarrow> f64) \<Rightarrow> f64 \<Rightarrow> f64" where
  "f64_mul5 rnd (Fin x) = rnd (x * 5)"
| "f64_mul5 rnd PInf = PInf"
| "f64_mul5 rnd NInf = NInf"

fun f64_div9 :: "(real \<Rightarrow> f64) \<Rightarrow> f64 \<Rightarrow> f64" where
  "f64_div9 rnd (Fin x) = rnd (x / 9)"
| "f64_div9 rnd PInf = PInf"
| "f64_div9 rnd NInf = NInf"

text \<open>The conversion of an \<^verbatim>\<open>int64\<close> entry to \<^verbatim>\<open>float64\<close>, as \<^verbatim>\<open>* 5.0\<close> makes it.\<close>

definition f64_of_int64 :: "(real \<Rightarrow> f64) \<Rightarrow> 64 word \<Rightarrow> f64" where
  "f64_of_int64 rnd w = rnd (real_of_int (sint w))"

text \<open>
  Lines 105 to 108 on the coerced temperature column. On an \<^verbatim>\<open>int64\<close> column
  \<^verbatim>\<open>col - 32\<close> is a subtraction of 64-bit integers, which wraps around; the product with
  \<^verbatim>\<open>5.0\<close> and the quotient are \<^verbatim>\<open>float64\<close> operations.
\<close>

definition to_celsius :: "(real \<Rightarrow> f64) \<Rightarrow> string \<Rightarrow> series \<Rightarrow> series" where
  "to_celsius rnd unit s =
     (if unit = deg_F
      then (case s of
              F64 xs \<Rightarrow>
                F64 (map (map_option (\<lambda>x. f64_div9 rnd (f64_mul5 rnd (f64_sub32 rnd x)))) xs)
            | I64 ws \<Rightarrow>
                F64 (map (\<lambda>w. Some (f64_div9 rnd (f64_mul5 rnd (f64_of_int64 rnd (w - 32))))) ws))
      else s)"

section \<open>The plot frame\<close>

text \<open>
  The frame handed to the chart has an index beside its columns. An index entry is a row
  number (the default index), a parsed timestamp, or the raw cell where parsing failed.
\<close>

datatype 'ts label = RowNo nat | Stamp 'ts | Orig cell

record 'ts frame =
  index :: "'ts label list"
  columns :: table

text \<open>Lines 111 to 113: the Celsius series, and the humidity series when one is chosen.\<close>

definition new_plot :: "table \<Rightarrow> string \<Rightarrow> py_error + 'ts frame" where
  "new_plot work hum_col =
     (case get_col work ''Temperature_C'' of
        Inl e \<Rightarrow> Inl e
      | Inr tc \<Rightarrow>
          (let plot_df = \<lparr>index = map RowNo [0..<col_len tc],
                            columns = [(temperature_label, tc)]\<rparr>
           in if hum_col \<noteq> ''<none>''
              then (case get_col work hum_col of
                      Inl e \<Rightarrow> Inl e
                    | Inr hc \<Rightarrow>
                        Inr (plot_df\<lparr>columns := set_col (columns plot_df) ''Humidity (%)'' hc\<rparr>))
              else Inr plot_df))"

fun cells_of :: "column \<Rightarrow> cell list" where
  "cells_of (Object cs) = cs"
| "cells_of (Float64 xs) = map (\<lambda>x. case x of None \<Rightarrow> NA | Some r \<Rightarrow> Num r) xs"

text \<open>\<^verbatim>\<open>parsed.where(parsed.notna(), work[x_col])\<close>\<close>

definition where_notna :: "'ts option list \<Rightarrow> cell list \<Rightarrow> 'ts label list" where
  "where_notna parsed raw =
     map (\<lambda>(p, c). case p of None \<Rightarrow> Orig c | Some t \<Rightarrow> Stamp t) (zip parsed raw)"

text \<open>
  Lines 116 to 121. \<^verbatim>\<open>pd.to_datetime(col, errors="coerce")\<close> is the library's, so it is
  the parameter \<open>to_datetime\<close>. Assigning an index of another length than the frame's
  raises \<^verbatim>\<open>ValueError\<close>. The name of the index is not part of the model.
\<close>

definition set_x_axis ::
  "(column \<Rightarrow> 'ts option list) \<Rightarrow> table \<Rightarrow> string \<Rightarrow> 'ts frame \<Rightarrow> py_error + 'ts frame" where
  "set_x_axis to_datetime work x_col plot_df =
     (if x_col \<noteq> ''<index>''
      then (case get_col work x_col of
              Inl e \<Rightarrow> Inl e
            | Inr xc \<Rightarrow>
                (let parsed = to_datetime xc;
                     idx = where_notna parsed (cells_of xc)
                 in if length idx = length (index plot_df)
                    then Inr (plot_df\<lparr>index := idx\<rparr>)
                    else Inl ValueError))
      else Inr plot_df)"

definition build_plot ::
  "(column \<Rightarrow> 'ts option list) \<Rightarrow> table \<Rightarrow> string \<Rightarrow> string \<Rightarrow> py_error + 'ts frame" where
  "build_plot to_datetime work hum_col x_col =
     (case new_plot work hum_col of
        Inl e \<Rightarrow> Inl e
      | Inr plot_df \<Rightarrow> set_x_axis to_datetime work x_col plot_df)"

subsection \<open>dropna\<close>

fun notna :: "column \<Rightarrow> bool list" where
  "notna (Object cs) = map (\<lambda>c. c \<noteq> NA) cs"
| "notna (Float64 xs) = map (\<lambda>x. x \<noteq> None) xs"

text \<open>Boolean indexing: the entries at the positions where the mask is true.\<close>

definition keep_rows :: "bool list \<Rightarrow> 'a list \<Rightarrow> 'a list" where
  "keep_rows keep xs = map snd (filter fst (zip keep xs))"

fun keep_rows_col :: "bool list \<Rightarrow> column \<Rightarrow> column" where
  "keep_rows_col keep (Object cs) = Object (keep_rows keep cs)"
| "keep_rows_col keep (Float64 xs) = Float64 (keep_rows keep xs)"

text \<open>
  \<^verbatim>\<open>dropna(how="all")\<close> keeps the rows that have a value in some column: the mask is the
  row-wise disjunction of the columns' \<open>notna\<close> masks.
\<close>

definition keep_mask :: "'ts frame \<Rightarrow> bool list" where
  "keep_mask f =
     foldr (\<lambda>(name, c) acc. map (\<lambda>(a, b). a \<or> b) (zip (notna c) acc))
       (columns f) (replicate (length (index f)) False)"

definition dropna_all :: "'ts frame \<Rightarrow> 'ts frame" where
  "dropna_all f =
     (let keep = keep_mask f
      in \<lparr>index = keep_rows keep (index f),
          columns = map (\<lambda>(name, c). (name, keep_rows_col keep c)) (columns f)\<rparr>)"

text \<open>\<^verbatim>\<open>Series.dropna()\<close>\<close>

definition series_dropna :: "column \<Rightarrow> column" where
  "series_dropna c = keep_rows_col (notna c) c"

text \<open>\<^verbatim>\<open>plot_df.empty\<close>\<close>

definition frame_empty :: "'ts frame \<Rightarrow> bool" where
  "frame_empty f = (columns f = [] \<or> length (index f) = 0)"

section \<open>Statistics and export\<close>

text \<open>
  The values that \<^verbatim>\<open>mean()\<close>, \<^verbatim>\<open>min()\<close>, \<^verbatim>\<open>max()\<close> and \<^verbatim>\<open>dropna().tolist()\<close> see
  in a float column: the entries that are not missing, in row order. The reductions and
  the \<^verbatim>\<open>.1f\<close> formatting raise \<^verbatim>\<open>TypeError\<close> on a column of texts.
\<close>

fun float_values :: "column \<Rightarrow> py_error + real list" where
  "float_values (Float64 xs) = Inr (List.map_filter id xs)"
| "float_values (Object cs) = Inl TypeError"

text \<open>A reduction over no values gives \<^verbatim>\<open>NaN\<close>, which is \<open>None\<close>.\<close>

definition series_mean :: "real list \<Rightarrow> real option" where
  "series_mean vals = (if vals = [] then None else Some (sum_list vals / real (length vals)))"

fun series_min :: "real list \<Rightarrow> real option" where
  "series_min [] = None"
| "series_min (v # vs) = Some (fold min vs v)"

fun series_max :: "real list \<Rightarrow> real option" where
  "series_max [] = None"
| "series_max (v # vs) = Some (fold max vs v)"

text \<open>
  Lines 165 to 174. \<open>data\<close> is the table that \<^verbatim>\<open>to_csv(buf, index=False)\<close> serialises; the
  serialiser is the library's.
\<close>

record download =
  data :: table
  file_name :: string
  mime :: string

definition export :: "table \<Rightarrow> py_error + download" where
  "export work =
     (let out = work
      in case get_col out ''Temperature_C'' of
           Inl e \<Rightarrow> Inl e
         | Inr c \<Rightarrow>
             Inr \<lparr>data = set_col out temperature_label c,
                  file_name = ''weather_processed.csv'',
                  mime = ''text/csv''\<rparr>)"

section \<open>The script\<close>

text \<open>
  One run of the script from line 41 on, for a loaded table and the four sidebar
  selections. A run ends in \<^verbatim>\<open>st.stop()\<close> after the warning of line 42 or the error of
  line 127, in an exception that nothing catches, or with everything rendered.
\<close>

datatype stop = EmptyCsv | NoValidTemperature | Raised py_error

record 'ts report =
  avg_temp :: "real option"
  min_temp :: "real option"
  max_temp :: "real option"
  chart :: "'ts frame"
  raw_data :: table
  temp_values :: "real list"
  download_button :: download

definition render :: "table \<Rightarrow> 'ts frame \<Rightarrow> py_error + 'ts report" where
  "render work plot_df =
     (case get_col (columns plot_df) temperature_label of
        Inl e \<Rightarrow> Inl e
      | Inr tc \<Rightarrow>
          (case float_values tc of
             Inl e \<Rightarrow> Inl e
           | Inr vals \<Rightarrow>
               (case export work of
                  Inl e \<Rightarrow> Inl e
                | Inr d \<Rightarrow>
                    Inr \<lparr>avg_temp = series_mean vals,
                         min_temp = series_min vals,
                         max_temp = series_max vals,
                         chart = plot_df,
                         raw_data = work,
                         temp_values = take 1000 vals,
                         download_button = d\<rparr>)))"

text \<open>Line 126: \<^verbatim>\<open>plot_df.empty or plot_df["Temperature (\<degree>C)"].dropna().empty\<close>\<close>

definition no_valid_temperature :: "'ts frame \<Rightarrow> py_error + bool" where
  "no_valid_temperature plot_df =
     (if frame_empty plot_df then Inr True
      else (case get_col (columns plot_df) temperature_label of
              Inl e \<Rightarrow> Inl e
            | Inr tc \<Rightarrow> Inr (col_len (series_dropna tc) = 0)))"

definition run ::
  "(string \<Rightarrow> real option) \<Rightarrow> (column \<Rightarrow> 'ts option list) \<Rightarrow> table \<Rightarrow>
     string \<Rightarrow> string \<Rightarrow> string \<Rightarrow> string \<Rightarrow> stop + 'ts report" where
  "run parse to_datetime df temp_col hum_col unit x_col =
     (if df_empty df then Inl EmptyCsv
      else (case prepare parse df temp_col hum_col unit of
              Inl e \<Rightarrow> Inl (Raised e)
            | Inr work \<Rightarrow>
                (case build_plot to_datetime work hum_col x_col of
                   Inl e \<Rightarrow> Inl (Raised e)
                 | Inr plot0 \<Rightarrow>
                     (let plot_df = dropna_all plot0
                      in case no_valid_temperature plot_df of
                           Inl e \<Rightarrow> Inl (Raised e)
                         | Inr True \<Rightarrow> Inl NoValidTemperature
                         | Inr False \<Rightarrow>
                             (case render work plot_df of
                                Inl e \<Rightarrow> Inl (Raised e)
                              | Inr r \<Rightarrow> Inr r)))))"

subsection \<open>Stand-ins for running the model\<close>

text \<open>
  To run the script on concrete tables the two library parsers need values: a number
  parser that reads strings of decimal digits, and a timestamp parser that reads nothing.
\<close>

definition digit_val :: "char \<Rightarrow> nat option" where
  "digit_val c =
     (if 48 \<le> (of_char c :: nat) \<and> (of_char c :: nat) \<le> 57
      then Some (of_char c - 48) else None)"

fun parse_digits_acc :: "nat \<Rightarrow> string \<Rightarrow> nat option" where
  "parse_digits_acc acc [] = Some acc"
| "parse_digits_acc acc (c # cs) =
     (case digit_val c of
        None \<Rightarrow> None
      | Some d \<Rightarrow> parse_digits_acc (10 * acc + d) cs)"

definition parse_digits :: "string \<Rightarrow> real option" where
  "parse_digits s = (if s = [] then None else map_option real (parse_digits_acc 0 s))"

definition no_timestamps :: "column \<Rightarrow> unit option list" where
  "no_timestamps c = replicate (col_len c) None"

subsection \<open>Example tables\<close>

text \<open>The two rows of the specification's scenario.\<close>

definition scenario_table :: table where
  "scenario_table =
     [(''temp'', Float64 [Some 32, Some 212]), (''hum'', Float64 [Some 50, Some 10])]"

definition scenario_report :: "unit report" where
  "scenario_report =
     \<lparr>avg_temp = Some 50, min_temp = Some 0, max_temp = Some 100,
      chart = \<lparr>index = [RowNo 0, RowNo 1],
               columns = [(temperature_label, Float64 [Some 0, Some 100]),
                          (''Humidity (%)'', Float64 [Some 50, Some 10])]\<rparr>,
      raw_data = [(''temp'', Float64 [Some 32, Some 212]),
                  (''hum'', Float64 [Some 50, Some 10]),
                  (''Temperature_C'', Float64 [Some 0, Some 100])],
      temp_values = [0, 100],
      download_button =
        \<lparr>data = [(''temp'', Float64 [Some 32, Some 212]),
                 (''hum'', Float64 [Some 50, Some 10]),
                 (''Temperature_C'', Float64 [Some 0, Some 100]),
                 (temperature_label, Float64 [Some 0, Some 100])],
         file_name = ''weather_processed.csv'', mime = ''text/csv''\<rparr>\<rparr>"

text \<open>A table with texts and gaps, its working table and its plot frame before \<open>dropna\<close>.\<close>

definition demo_table :: table where
  "demo_table =
     [(''station'', Object [Text ''A'', Text ''B'', Text ''C'', Text ''D'']),
      (''temp'', Object [Text ''32'', Text ''abc'', NA, Text ''212'']),
      (''hum'', Object [Text ''5'', NA, Text ''7'', Text ''x''])]"

definition demo_work :: table where
  "demo_work =
     [(''station'', Object [Text ''A'', Text ''B'', Text ''C'', Text ''D'']),
      (''temp'', Float64 [Some 32, None, None, Some 212]),
      (''hum'', Float64 [Some 5, None, Some 7, None]),
      (''Temperature_C'', Float64 [Some 0, None, None, Some 100])]"

definition demo_plot :: "unit frame" where
  "demo_plot =
     \<lparr>index = [RowNo 0, RowNo 1, RowNo 2, RowNo 3],
      columns = [(temperature_label, Float64 [Some 0, None, None, Some 100]),
                 (''Humidity (%)'', Float64 [Some 5, None, Some 7, None])]\<rparr>"

text \<open>A table whose temperature column holds only texts that are no numbers.\<close>

definition text_table :: table where
  "text_table =
     [(''temp'', Object [Text ''warm'', Text ''cold'']), (''hum'', Float64 [Some 50, Some 10])]"

text \<open>A table that already has a column named \<^verbatim>\<open>Temperature_C\<close>.\<close>

definition clash_table :: table where
  "clash_table =
     [(''temp'', Float64 [Some 212]), (''Temperature_C'', Float64 [Some 100])]"

definition clash_report :: "unit report" where
  "clash_report =
     \<lparr>avg_temp = Some 212, min_temp = Some 212, max_temp = Some 212,
      chart = \<lparr>index = [RowNo 0],
               columns = [(temperature_label, Float64 [Some 212])]\<rparr>,
      raw_data = [(''temp'', Float64 [Some 212]), (''Temperature_C'', Float64 [Some 212])],
      temp_values = [212],
      download_button =
        \<lparr>data = [(''temp'', Float64 [Some 212]), (''Temperature_C'', Float64 [Some 212]),
                 (temperature_label, Float64 [Some 212])],
         file_name = ''weather_processed.csv'', mime = ''text/csv''\<rparr>\<rparr>"

section \<open>Properties of the helpers\<close>

subsection \<open>first_match\<close>

lemma str_in_iff: "str_in sub name \<longleftrightarrow> (\<exists>p q. name = p @ sub @ q)"
proof (induction name)
  case Nil
  show ?case by auto
next
  case (Cons c cs)
  have a: "starts_with sub (c # cs) \<longleftrightarrow> (\<exists>q. c # cs = sub @ q)"
    unfolding starts_with_def
    by (metis append_eq_conv_conj append_take_drop_id)
  have b: "(\<exists>p q. c # cs = p @ sub @ q) \<longleftrightarrow> (\<exists>q. c # cs = sub @ q) \<or> (\<exists>p q. cs = p @ sub @ q)"
  proof
    assume "\<exists>p q. c # cs = p @ sub @ q"
    then obtain p q where pq: "c # cs = p @ sub @ q" by blast
    show "(\<exists>q. c # cs = sub @ q) \<or> (\<exists>p q. cs = p @ sub @ q)"
    proof (cases p)
      case Nil
      with pq show ?thesis by auto
    next
      case (Cons x p')
      with pq have "cs = p' @ sub @ q" by simp
      then show ?thesis by blast
    qed
  next
    assume "(\<exists>q. c # cs = sub @ q) \<or> (\<exists>p q. cs = p @ sub @ q)"
    then show "\<exists>p q. c # cs = p @ sub @ q"
    proof
      assume "\<exists>q. c # cs = sub @ q"
      then obtain q where "c # cs = [] @ sub @ q" by auto
      then show ?thesis by blast
    next
      assume "\<exists>p q. cs = p @ sub @ q"
      then obtain p q where "cs = p @ sub @ q" by blast
      then have "c # cs = (c # p) @ sub @ q" by simp
      then show ?thesis by blast
    qed
  qed
  show ?case using Cons.IH a b by simp
qed

lemma scan_lowered_None:
  "scan_lowered sub (enumerate k xs) = None \<longleftrightarrow> (\<forall>n \<in> set xs. \<not> str_in sub n)"
  by (induction xs arbitrary: k) auto

lemma scan_lowered_Some:
  "scan_lowered sub (enumerate k xs) = Some i \<Longrightarrow>
     k \<le> i \<and> i < k + length xs \<and> str_in sub (xs ! (i - k))
     \<and> (\<forall>i'. k \<le> i' \<and> i' < i \<longrightarrow> \<not> str_in sub (xs ! (i' - k)))"
proof (induction xs arbitrary: k)
  case Nil
  then show ?case by simp
next
  case (Cons x xs)
  show ?case
  proof (cases "str_in sub x")
    case True
    with Cons.prems show ?thesis by auto
  next
    case False
    with Cons.prems have "scan_lowered sub (enumerate (Suc k) xs) = Some i" by simp
    from Cons.IH[OF this] have ih: "Suc k \<le> i" "i < Suc k + length xs" "str_in sub (xs ! (i - Suc k))"
      "\<forall>i'. Suc k \<le> i' \<and> i' < i \<longrightarrow> \<not> str_in sub (xs ! (i' - Suc k))" by auto
    have 1: "(x # xs) ! (i - k) = xs ! (i - Suc k)" using ih(1) by (simp add: nth_Cons')
    have 2: "\<forall>i'. k \<le> i' \<and> i' < i \<longrightarrow> \<not> str_in sub ((x # xs) ! (i' - k))"
    proof (intro allI impI)
      fix i' assume h: "k \<le> i' \<and> i' < i"
      show "\<not> str_in sub ((x # xs) ! (i' - k))"
      proof (cases "i' = k")
        case True then show ?thesis using False by simp
      next
        case False
        then have "Suc k \<le> i'" using h by simp
        then have "\<not> str_in sub (xs ! (i' - Suc k))" using ih(4) h by simp
        moreover have "(x # xs) ! (i' - k) = xs ! (i' - Suc k)" using \<open>Suc k \<le> i'\<close> by (simp add: nth_Cons')
        ultimately show ?thesis by simp
      qed
    qed
    show ?thesis using ih 1 2 by simp
  qed
qed

lemma first_match_loop_None:
  "first_match_loop cols lowered subs = None \<longleftrightarrow>
     (\<forall>s \<in> set subs. \<forall>n \<in> set lowered. \<not> str_in s n)"
proof (induction subs)
  case Nil
  show ?case by simp
next
  case (Cons s subs)
  show ?case
  proof (cases "scan_lowered s (enumerate 0 lowered)")
    case None
    then show ?thesis using Cons.IH scan_lowered_None[of s 0 lowered] by simp
  next
    case (Some i)
    then have "\<not> (\<forall>n \<in> set lowered. \<not> str_in s n)"
      using scan_lowered_None[of s 0 lowered] by simp
    then show ?thesis using Some by auto
  qed
qed

lemma first_match_loop_Some:
  "first_match_loop cols lowered subs = Some r \<Longrightarrow>
     \<exists>j i. j < length subs \<and> i < length lowered \<and> r = cols ! i
        \<and> str_in (subs ! j) (lowered ! i)
        \<and> (\<forall>i' < i. \<not> str_in (subs ! j) (lowered ! i'))
        \<and> (\<forall>j' < j. \<forall>n \<in> set lowered. \<not> str_in (subs ! j') n)"
proof (induction subs)
  case Nil
  then show ?case by simp
next
  case (Cons s subs)
  show ?case
  proof (cases "scan_lowered s (enumerate 0 lowered)")
    case (Some i)
    with Cons.prems have r: "r = cols ! i" by simp
    from scan_lowered_Some[OF Some] have
      "i < length lowered" "str_in s (lowered ! i)" "\<forall>i' < i. \<not> str_in s (lowered ! i')" by auto
    then have "0 < length (s # subs) \<and> i < length lowered \<and> r = cols ! i
        \<and> str_in ((s # subs) ! 0) (lowered ! i)
        \<and> (\<forall>i' < i. \<not> str_in ((s # subs) ! 0) (lowered ! i'))
        \<and> (\<forall>j' < (0::nat). \<forall>n \<in> set lowered. \<not> str_in ((s # subs) ! j') n)"
      using r by simp
    then show ?thesis by blast
  next
    case None
    with Cons.prems have "first_match_loop cols lowered subs = Some r" by simp
    from Cons.IH[OF this] obtain j i where ji:
      "j < length subs" "i < length lowered" "r = cols ! i"
      "str_in (subs ! j) (lowered ! i)"
      "\<forall>i' < i. \<not> str_in (subs ! j) (lowered ! i')"
      "\<forall>j' < j. \<forall>n \<in> set lowered. \<not> str_in (subs ! j') n" by blast
    have none: "\<forall>n \<in> set lowered. \<not> str_in s n"
      using None scan_lowered_None[of s 0 lowered] by simp
    have "\<forall>j' < Suc j. \<forall>n \<in> set lowered. \<not> str_in ((s # subs) ! j') n"
    proof (intro allI impI)
      fix j' assume "j' < Suc j"
      show "\<forall>n \<in> set lowered. \<not> str_in ((s # subs) ! j') n"
      proof (cases j')
        case 0 then show ?thesis using none by simp
      next
        case (Suc m)
        then have "m < j" using \<open>j' < Suc j\<close> by simp
        then show ?thesis using ji(6) Suc by simp
      qed
    qed
    then have "Suc j < length (s # subs) \<and> i < length lowered \<and> r = cols ! i
        \<and> str_in ((s # subs) ! Suc j) (lowered ! i)
        \<and> (\<forall>i' < i. \<not> str_in ((s # subs) ! Suc j) (lowered ! i'))
        \<and> (\<forall>j' < Suc j. \<forall>n \<in> set lowered. \<not> str_in ((s # subs) ! j') n)"
      using ji by simp
    then show ?thesis by blast
  qed
qed

text \<open>
  Claim C2. For all column names and all candidate substrings, \<open>first_match\<close> tries the
  substrings in the given order and, for each, the column names in their order, comparing
  the substring with the lower-cased name. It returns \<open>None\<close> exactly when no lower-cased
  name contains any substring. Otherwise it returns the column at the least position whose
  lower-cased name contains the first substring that occurs in any name.
\<close>

theorem first_match_spec:
  "(first_match lower cols subs = None \<longleftrightarrow>
      (\<forall>s \<in> set subs. \<forall>c \<in> set cols. \<not> str_in s (lower c)))
   \<and> (\<forall>r. first_match lower cols subs = Some r \<longrightarrow>
        (\<exists>j i. j < length subs \<and> i < length cols \<and> r = cols ! i
           \<and> str_in (subs ! j) (lower (cols ! i))
           \<and> (\<forall>i' < i. \<not> str_in (subs ! j) (lower (cols ! i')))
           \<and> (\<forall>j' < j. \<forall>c \<in> set cols. \<not> str_in (subs ! j') (lower c))))"
proof (intro conjI allI impI)
  show "first_match lower cols subs = None \<longleftrightarrow>
      (\<forall>s \<in> set subs. \<forall>c \<in> set cols. \<not> str_in s (lower c))"
    by (simp add: first_match_def first_match_loop_None)
next
  fix r assume "first_match lower cols subs = Some r"
  then have "first_match_loop cols (map lower cols) subs = Some r"
    by (simp add: first_match_def)
  from first_match_loop_Some[OF this] obtain j i where ji:
      "j < length subs" "i < length cols" "r = cols ! i"
      "str_in (subs ! j) (map lower cols ! i)"
      "\<forall>i' < i. \<not> str_in (subs ! j) (map lower cols ! i')"
      "\<forall>j' < j. \<forall>n \<in> set (map lower cols). \<not> str_in (subs ! j') n" by auto
  have "str_in (subs ! j) (lower (cols ! i))" using ji(2,4) by simp
  moreover have "\<forall>i' < i. \<not> str_in (subs ! j) (lower (cols ! i'))"
    using ji(2,5) by simp
  moreover have "\<forall>j' < j. \<forall>c \<in> set cols. \<not> str_in (subs ! j') (lower c)"
    using ji(6) by simp
  ultimately show "\<exists>j i. j < length subs \<and> i < length cols \<and> r = cols ! i
           \<and> str_in (subs ! j) (lower (cols ! i))
           \<and> (\<forall>i' < i. \<not> str_in (subs ! j) (lower (cols ! i')))
           \<and> (\<forall>j' < j. \<forall>c \<in> set cols. \<not> str_in (subs ! j') (lower c))"
    using ji(1,2,3) by blast
qed

theorem first_match_spec_witness:
  "first_match str_lower [''Date'', ''Humidity'', ''Air TEMP (F)'', ''temp2''] [''wind'', ''temp'']
     = Some ''Air TEMP (F)''
   \<and> (\<exists>j i. j < 2 \<and> i < 4
         \<and> ''Air TEMP (F)'' = [''Date'', ''Humidity'', ''Air TEMP (F)'', ''temp2''] ! i
         \<and> str_in ([''wind'', ''temp''] ! j)
              (str_lower ([''Date'', ''Humidity'', ''Air TEMP (F)'', ''temp2''] ! i)))
   \<and> first_match str_lower [''Date'', ''Humidity''] [''temp''] = None"
proof -
  have e: "first_match str_lower [''Date'', ''Humidity'', ''Air TEMP (F)'', ''temp2'']
             [''wind'', ''temp''] = Some ''Air TEMP (F)''"
    by code_simp
  have a: "\<exists>j i. j < 2 \<and> i < 4
         \<and> ''Air TEMP (F)'' = [''Date'', ''Humidity'', ''Air TEMP (F)'', ''temp2''] ! i
         \<and> str_in ([''wind'', ''temp''] ! j)
              (str_lower ([''Date'', ''Humidity'', ''Air TEMP (F)'', ''temp2''] ! i))"
  proof -
    from first_match_spec[of str_lower "[''Date'', ''Humidity'', ''Air TEMP (F)'', ''temp2'']"
        "[''wind'', ''temp'']"] e
    obtain j i where ji:
      "j < length [''wind'', ''temp'']"
      "i < length [''Date'', ''Humidity'', ''Air TEMP (F)'', ''temp2'']"
      "''Air TEMP (F)'' = [''Date'', ''Humidity'', ''Air TEMP (F)'', ''temp2''] ! i"
      "str_in ([''wind'', ''temp''] ! j)
         (str_lower ([''Date'', ''Humidity'', ''Air TEMP (F)'', ''temp2''] ! i))"
      by blast
    have "j < 2" "i < 4" using ji(1,2) by simp_all
    then show ?thesis using ji(3,4) by blast
  qed
  have s: "\<not> str_in ''temp'' (str_lower ''Date'')" "\<not> str_in ''temp'' (str_lower ''Humidity'')"
    by code_simp+
  have n: "first_match str_lower [''Date'', ''Humidity''] [''temp''] = None"
    using first_match_spec[of str_lower "[''Date'', ''Humidity'']" "[''temp'']"] s
    by simp
  show ?thesis using e a n by blast
qed

subsection \<open>safe_index\<close>

lemma list_index_from_absent:
  "v \<notin> set xs \<Longrightarrow> list_index_from k xs v = Inl ValueError"
  by (induction xs arbitrary: k) auto

lemma list_index_from_present:
  "v \<in> set xs \<Longrightarrow>
     \<exists>p. list_index_from k xs v = Inr (k + p) \<and> p < length xs \<and> xs ! p = v
        \<and> (\<forall>q < p. xs ! q \<noteq> v)"
proof (induction xs arbitrary: k)
  case Nil
  then show ?case by simp
next
  case (Cons x xs)
  show ?case
  proof (cases "x = v")
    case True
    then have "list_index_from k (x # xs) v = Inr (k + 0) \<and> 0 < length (x # xs)
       \<and> (x # xs) ! 0 = v \<and> (\<forall>q < (0::nat). (x # xs) ! q \<noteq> v)" by simp
    then show ?thesis by blast
  next
    case False
    with Cons.prems have "v \<in> set xs" by simp
    from Cons.IH[OF this, of "Suc k"] obtain p where p:
      "list_index_from (Suc k) xs v = Inr (Suc k + p)" "p < length xs" "xs ! p = v"
      "\<forall>q < p. xs ! q \<noteq> v" by blast
    have "\<forall>q < Suc p. (x # xs) ! q \<noteq> v"
    proof (intro allI impI)
      fix q assume "q < Suc p"
      then show "(x # xs) ! q \<noteq> v" using False p(4) by (cases q) auto
    qed
    then have "list_index_from k (x # xs) v = Inr (k + Suc p) \<and> Suc p < length (x # xs)
       \<and> (x # xs) ! Suc p = v \<and> (\<forall>q < Suc p. (x # xs) ! q \<noteq> v)"
      using False p by simp
    then show ?thesis by blast
  qed
qed

text \<open>
  Claim C7. \<open>safe_index\<close> never raises. When the value is in the options it returns the
  offset plus the first position of the value; when the value is \<open>None\<close> or not in the
  options it returns the fallback.
\<close>

theorem safe_index_spec:
  "(\<exists>n. safe_index options val offset fallback = Inr n)
   \<and> (\<forall>v. val = Some v \<and> v \<in> set options \<longrightarrow>
        (\<exists>p. p < length options \<and> options ! p = v \<and> (\<forall>q < p. options ! q \<noteq> v)
           \<and> safe_index options val offset fallback = Inr (offset + int p)))
   \<and> (val = None \<or> (\<exists>v. val = Some v \<and> v \<notin> set options) \<longrightarrow>
        safe_index options val offset fallback = Inr fallback)"
proof (intro conjI allI impI)
  show "\<exists>n. safe_index options val offset fallback = Inr n"
    by (simp add: safe_index_def split: sum.splits)
next
  fix v assume h: "val = Some v \<and> v \<in> set options"
  from list_index_from_present[of v options 0] h obtain p where p:
    "list_index_from 0 options v = Inr p" "p < length options" "options ! p = v"
    "\<forall>q < p. options ! q \<noteq> v" by auto
  have "safe_index options val offset fallback = Inr (offset + int p)"
    using h p(1) by (simp add: safe_index_def safe_index_try_def list_index_def)
  then show "\<exists>p. p < length options \<and> options ! p = v \<and> (\<forall>q < p. options ! q \<noteq> v)
           \<and> safe_index options val offset fallback = Inr (offset + int p)"
    using p by blast
next
  assume "val = None \<or> (\<exists>v. val = Some v \<and> v \<notin> set options)"
  then show "safe_index options val offset fallback = Inr fallback"
  proof
    assume "val = None"
    then show ?thesis by (simp add: safe_index_def safe_index_try_def)
  next
    assume "\<exists>v. val = Some v \<and> v \<notin> set options"
    then obtain v where "val = Some v" "v \<notin> set options" by blast
    then show ?thesis
      by (simp add: safe_index_def safe_index_try_def list_index_def list_index_from_absent)
  qed
qed

theorem safe_index_spec_witness:
  "safe_index [''date'', ''temp'', ''hum'', ''temp''] (Some ''temp'') 1 0 = Inr 2
   \<and> safe_index [''date'', ''temp''] (Some ''hum'') 1 0 = Inr 0
   \<and> safe_index [''date'', ''temp''] (None :: string option) 1 7 = Inr 7"
proof -
  have a: "safe_index [''date'', ''temp'', ''hum'', ''temp''] (Some ''temp'') 1 0 = Inr 2"
    using safe_index_spec[of "[''date'', ''temp'', ''hum'', ''temp'']" "Some ''temp''" 1 0]
    by (simp add: safe_index_def safe_index_try_def list_index_def)
  have b: "safe_index [''date'', ''temp''] (Some ''hum'') 1 0 = Inr 0"
    using safe_index_spec[of "[''date'', ''temp'']" "Some ''hum''" 1 0] by simp
  have c: "safe_index [''date'', ''temp''] (None :: string option) 1 7 = Inr 7"
    using safe_index_spec[of "[''date'', ''temp'']" "None :: string option" 1 7] by simp
  show ?thesis using a b c by simp
qed

section \<open>The working table\<close>

lemma get_col_set_col:
  "get_col (set_col t n c) m = (if m = n then Inr c else get_col t m)"
  by (induction t) auto

lemma get_col_Inl: "get_col t n = Inl e \<Longrightarrow> e = KeyError \<and> n \<notin> set (column_names t)"
  by (induction t) (force simp: column_names_def split: if_splits)+

lemma get_col_Inr: "get_col t n = Inr c \<Longrightarrow> (n, c) \<in> set t"
  by (induction t) (auto split: if_splits)

lemma get_col_present: "n \<in> set (column_names t) \<Longrightarrow> \<exists>c. get_col t n = Inr c"
  by (induction t) (force simp: column_names_def)+

lemma column_names_set_col:
  "column_names (set_col t n c) =
     (if n \<in> set (column_names t) then column_names t else column_names t @ [n])"
  by (induction t) (force simp: column_names_def)+

lemma to_numeric_idem: "to_numeric parse (to_numeric parse c) = to_numeric parse c"
  by (cases c) auto

lemma col_len_to_numeric: "col_len (to_numeric parse c) = col_len c"
  by (cases c) auto

lemma to_numeric_float: "\<exists>xs. to_numeric parse c = Float64 xs \<and> length xs = col_len c"
  by (cases c) auto

lemma deg_C_neq_deg_F: "deg_C \<noteq> deg_F"
  by (simp add: deg_C_def deg_F_def)

text \<open>Coercing one column, and the temperature column after both coercions.\<close>

lemma coerce_column_Inr:
  "coerce_column parse t n = Inr w \<longleftrightarrow>
     (\<exists>c. get_col t n = Inr c \<and> w = set_col t n (to_numeric parse c))"
  by (auto simp: coerce_column_def split: sum.splits)

lemma coerced_twice:
  assumes "coerce_column parse df temp_col = Inr w1"
    and "(if hum_col \<noteq> ''<none>'' then coerce_column parse w1 hum_col else Inr w1) = Inr w2"
    and "get_col df temp_col = Inr tc"
  shows "get_col w2 temp_col = Inr (to_numeric parse tc)"
proof -
  from assms(1,3) have w1: "w1 = set_col df temp_col (to_numeric parse tc)"
    by (simp add: coerce_column_Inr)
  then have g1: "get_col w1 temp_col = Inr (to_numeric parse tc)"
    by (simp add: get_col_set_col)
  show ?thesis
  proof (cases "hum_col \<noteq> ''<none>''")
    case False
    with assms(2) g1 show ?thesis by simp
  next
    case True
    with assms(2) obtain hc where hc: "get_col w1 hum_col = Inr hc"
      "w2 = set_col w1 hum_col (to_numeric parse hc)"
      by (auto simp: coerce_column_Inr)
    show ?thesis
    proof (cases "hum_col = temp_col")
      case True
      with hc(1) g1 have "hc = to_numeric parse tc" by simp
      with hc(2) True show ?thesis by (simp add: get_col_set_col to_numeric_idem)
    next
      case False
      with hc g1 show ?thesis by (simp add: get_col_set_col)
    qed
  qed
qed

lemma prepare_Inr:
  assumes "prepare parse df temp_col hum_col unit = Inr work"
  shows "\<exists>tc w1 w2 xs.
     get_col df temp_col = Inr tc
     \<and> w1 = set_col df temp_col (to_numeric parse tc)
     \<and> (if hum_col \<noteq> ''<none>'' then coerce_column parse w1 hum_col else Inr w1) = Inr w2
     \<and> to_numeric parse tc = Float64 xs
     \<and> work = set_col w2 ''Temperature_C''
          (Float64 (if unit = deg_F then map (map_option (\<lambda>f. (f - 32) * 5 / 9)) xs else xs))"
proof -
  from assms obtain w1 where w1: "coerce_column parse df temp_col = Inr w1"
    by (auto simp: prepare_def split: sum.splits)
  then obtain tc where tc: "get_col df temp_col = Inr tc"
    "w1 = set_col df temp_col (to_numeric parse tc)"
    by (auto simp: coerce_column_Inr)
  from assms w1 obtain w2 where w2:
    "(if hum_col \<noteq> ''<none>'' then coerce_column parse w1 hum_col else Inr w1) = Inr w2"
    "add_celsius w2 temp_col unit = Inr work"
    by (auto simp: prepare_def split: sum.splits)
  from coerced_twice[OF w1 w2(1) tc(1)]
  have g: "get_col w2 temp_col = Inr (to_numeric parse tc)" .
  obtain xs where xs: "to_numeric parse tc = Float64 xs"
    using to_numeric_float by blast
  from w2(2) g xs have "work = set_col w2 ''Temperature_C''
          (Float64 (if unit = deg_F then map (map_option (\<lambda>f. (f - 32) * 5 / 9)) xs else xs))"
    by (auto simp: add_celsius_def split: if_splits)
  with tc w2(1) xs show ?thesis by blast
qed

lemma prepare_total:
  assumes "temp_col \<in> set (column_names df)"
    and "hum_col = ''<none>'' \<or> hum_col \<in> set (column_names df)"
  shows "\<exists>work. prepare parse df temp_col hum_col unit = Inr work"
proof -
  from assms(1) obtain tc where tc: "get_col df temp_col = Inr tc"
    using get_col_present by blast
  define w1 where "w1 = set_col df temp_col (to_numeric parse tc)"
  have c1: "coerce_column parse df temp_col = Inr w1"
    using tc w1_def by (simp add: coerce_column_Inr)
  have "\<exists>w2. (if hum_col \<noteq> ''<none>'' then coerce_column parse w1 hum_col else Inr w1) = Inr w2"
  proof (cases "hum_col \<noteq> ''<none>''")
    case False then show ?thesis by simp
  next
    case True
    with assms(2) have "hum_col \<in> set (column_names w1)"
      by (simp add: w1_def column_names_set_col)
    then obtain hc where "get_col w1 hum_col = Inr hc" using get_col_present by blast
    with True show ?thesis by (simp add: coerce_column_Inr)
  qed
  then obtain w2 where w2:
    "(if hum_col \<noteq> ''<none>'' then coerce_column parse w1 hum_col else Inr w1) = Inr w2" by blast
  from coerced_twice[OF c1 w2 tc]
  have g: "get_col w2 temp_col = Inr (to_numeric parse tc)" .
  obtain xs where xs: "to_numeric parse tc = Float64 xs"
    using to_numeric_float by blast
  have "\<exists>work. add_celsius w2 temp_col unit = Inr work"
    using g xs by (simp add: add_celsius_def)
  then show ?thesis using c1 w2 by (auto simp: prepare_def)
qed

lemma set_col_present_names:
  "get_col t name = Inr c0 \<Longrightarrow> column_names (set_col t name c) = column_names t"
proof -
  assume "get_col t name = Inr c0"
  then have "(name, c0) \<in> set t" by (rule get_col_Inr)
  then have "name \<in> set (column_names t)" by (force simp: column_names_def)
  then show ?thesis by (simp add: column_names_set_col)
qed

text \<open>The working table, column by column.\<close>

lemma prepare_columns:
  assumes prep: "prepare parse df temp_col hum_col unit = Inr work"
  shows "\<exists>tc celsius. get_col df temp_col = Inr tc
      \<and> get_col work ''Temperature_C'' = Inr celsius
      \<and> column_names work =
           (if ''Temperature_C'' \<in> set (column_names df) then column_names df
            else column_names df @ [''Temperature_C''])
      \<and> (temp_col \<noteq> ''Temperature_C'' \<longrightarrow>
            get_col work temp_col = Inr (to_numeric parse tc))
      \<and> (hum_col \<noteq> ''<none>'' \<longrightarrow>
           (\<exists>hc. get_col df hum_col = Inr hc
              \<and> (hum_col \<noteq> ''Temperature_C'' \<longrightarrow>
                    get_col work hum_col = Inr (to_numeric parse hc))))
      \<and> (\<forall>name. name \<noteq> temp_col \<and> (hum_col = ''<none>'' \<or> name \<noteq> hum_col)
              \<and> name \<noteq> ''Temperature_C'' \<longrightarrow> get_col work name = get_col df name)"
proof -
  from prepare_Inr[OF prep] obtain tc w1 w2 xs where p:
    "get_col df temp_col = Inr tc"
    "w1 = set_col df temp_col (to_numeric parse tc)"
    "(if hum_col \<noteq> ''<none>'' then coerce_column parse w1 hum_col else Inr w1) = Inr w2"
    "to_numeric parse tc = Float64 xs"
    "work = set_col w2 ''Temperature_C''
          (Float64 (if unit = deg_F then map (map_option (\<lambda>f. (f - 32) * 5 / 9)) xs else xs))"
    by blast
  let ?cel = "Float64 (if unit = deg_F then map (map_option (\<lambda>f. (f - 32) * 5 / 9)) xs else xs)"
  have n1: "column_names w1 = column_names df"
    using set_col_present_names[OF p(1)] by (simp add: p(2))
  have g1: "\<And>name. get_col w1 name = (if name = temp_col then Inr (to_numeric parse tc)
                                      else get_col df name)"
    by (simp add: p(2) get_col_set_col)
  have w2: "column_names w2 = column_names df
      \<and> (\<forall>name. name \<noteq> temp_col \<and> (hum_col = ''<none>'' \<or> name \<noteq> hum_col) \<longrightarrow>
             get_col w2 name = get_col df name)
      \<and> (hum_col \<noteq> ''<none>'' \<longrightarrow>
           (\<exists>hc. get_col df hum_col = Inr hc \<and> get_col w2 hum_col = Inr (to_numeric parse hc)))"
  proof (cases "hum_col \<noteq> ''<none>''")
    case False
    with p(3) have "w2 = w1" by simp
    then show ?thesis using False n1 g1 by simp
  next
    case True
    with p(3) obtain hc1 where hc1: "get_col w1 hum_col = Inr hc1"
      "w2 = set_col w1 hum_col (to_numeric parse hc1)" by (auto simp: coerce_column_Inr)
    have names: "column_names w2 = column_names df"
      using set_col_present_names[OF hc1(1)] n1 by (simp add: hc1(2))
    have other: "\<forall>name. name \<noteq> temp_col \<and> (hum_col = ''<none>'' \<or> name \<noteq> hum_col) \<longrightarrow>
             get_col w2 name = get_col df name"
      using True g1 by (simp add: hc1(2) get_col_set_col)
    have "\<exists>hc. get_col df hum_col = Inr hc \<and> to_numeric parse hc1 = to_numeric parse hc"
    proof (cases "hum_col = temp_col")
      case True
      with hc1(1) g1 have "hc1 = to_numeric parse tc" by simp
      then show ?thesis using True p(1) by (simp add: to_numeric_idem)
    next
      case False
      with hc1(1) g1 show ?thesis by simp
    qed
    then obtain hc where "get_col df hum_col = Inr hc" "to_numeric parse hc1 = to_numeric parse hc"
      by blast
    then have "\<exists>hc. get_col df hum_col = Inr hc \<and> get_col w2 hum_col = Inr (to_numeric parse hc)"
      by (simp add: hc1(2) get_col_set_col)
    then show ?thesis using names other by simp
  qed
  have gt: "get_col w2 temp_col = Inr (to_numeric parse tc)"
  proof -
    have c: "coerce_column parse df temp_col = Inr w1" using p(1,2) by (simp add: coerce_column_Inr)
    show ?thesis using coerced_twice[OF c p(3) p(1)] .
  qed
  have a: "get_col work ''Temperature_C'' = Inr ?cel" by (simp add: p(5) get_col_set_col)
  have b: "column_names work =
           (if ''Temperature_C'' \<in> set (column_names df) then column_names df
            else column_names df @ [''Temperature_C''])"
    using w2 by (simp add: p(5) column_names_set_col)
  have c: "temp_col \<noteq> ''Temperature_C'' \<longrightarrow> get_col work temp_col = Inr (to_numeric parse tc)"
    using gt by (simp add: p(5) get_col_set_col)
  have d: "hum_col \<noteq> ''<none>'' \<longrightarrow>
           (\<exists>hc. get_col df hum_col = Inr hc
              \<and> (hum_col \<noteq> ''Temperature_C'' \<longrightarrow>
                    get_col work hum_col = Inr (to_numeric parse hc)))"
    using w2 by (auto simp: p(5) get_col_set_col)
  have e: "\<forall>name. name \<noteq> temp_col \<and> (hum_col = ''<none>'' \<or> name \<noteq> hum_col)
              \<and> name \<noteq> ''Temperature_C'' \<longrightarrow> get_col work name = get_col df name"
    using w2 by (simp add: p(5) get_col_set_col)
  show ?thesis using p(1) a b c d e by (intro exI[of _ tc] exI[of _ ?cel] conjI)
qed

subsection \<open>The conversion in machine arithmetic\<close>



text \<open>With exact rounding the machine-level conversion is the one of the table model.\<close>

lemma table_level_conversion:
  assumes "fahrenheit_to_celsius (Float64 xs) = Inr (Float64 ys)"
  shows "to_celsius Fin deg_F (F64 (map (map_option Fin) xs)) = F64 (map (map_option Fin) ys)"
proof -
  have "ys = map (map_option (\<lambda>f. (f - 32) * 5 / 9)) xs" using assms by simp
  then show ?thesis by (simp add: to_celsius_def option.map_comp comp_def)
qed




section \<open>The plot frame and dropna\<close>

lemma length_notna: "length (notna c) = col_len c"
  by (cases c) auto

lemma notna_float_nth: "i < length xs \<Longrightarrow> notna (Float64 xs) ! i \<longleftrightarrow> xs ! i \<noteq> None"
  by simp

lemma keep_rows_Nil: "keep_rows [] xs = []" "keep_rows keep [] = []"
  by (simp_all add: keep_rows_def)

lemma keep_rows_Cons:
  "keep_rows (b # keep) (x # xs) = (if b then x # keep_rows keep xs else keep_rows keep xs)"
  by (simp add: keep_rows_def)

lemma upt_filter_shift:
  "filter P [0..<Suc n] = (if P 0 then [0] else []) @ map Suc (filter (\<lambda>i. P (Suc i)) [0..<n])"
proof -
  have "[0..<Suc n] = 0 # map Suc [0..<n]"
    by (simp add: upt_conv_Cons map_Suc_upt del: upt_Suc)
  then show ?thesis by (simp add: filter_map comp_def del: upt_Suc)
qed

lemma keep_rows_nth:
  "length keep = length xs \<Longrightarrow>
     keep_rows keep xs = map ((!) xs) (filter ((!) keep) [0..<length xs])"
proof (induction keep xs rule: list_induct2)
  case Nil
  show ?case by (simp add: keep_rows_Nil)
next
  case (Cons b keep x xs)
  have "filter ((!) (b # keep)) [0..<Suc (length xs)]
      = (if b then [0] else []) @ map Suc (filter ((!) keep) [0..<length xs])"
    using upt_filter_shift[of "(!) (b # keep)" "length xs"] by simp
  then show ?case using Cons.IH
    by (simp add: keep_rows_Cons comp_def del: upt_Suc)
qed

lemma all_len_set_col: "all_len t n \<Longrightarrow> col_len c = n \<Longrightarrow> all_len (set_col t name c) n"
  by (induction t) (auto simp: all_len_def split: if_splits)

lemma all_len_get_col: "all_len t n \<Longrightarrow> get_col t name = Inr c \<Longrightarrow> col_len c = n"
  using get_col_Inr by (fastforce simp: all_len_def)

lemma wf_table_all_len: "wf_table t \<Longrightarrow> all_len t (nrows t)"
  by (auto simp: wf_table_def all_len_def list_all_iff)

lemma mask_fold:
  "all_len cols n \<Longrightarrow>
     length (foldr (\<lambda>(name, c) acc. map (\<lambda>(a, b). a \<or> b) (zip (notna c) acc))
               cols (replicate n False)) = n
     \<and> (\<forall>i < n. foldr (\<lambda>(name, c) acc. map (\<lambda>(a, b). a \<or> b) (zip (notna c) acc))
               cols (replicate n False) ! i
           \<longleftrightarrow> (\<exists>(name, c) \<in> set cols. notna c ! i))"
proof (induction cols)
  case Nil
  show ?case by simp
next
  case (Cons a cols)
  obtain name c where a: "a = (name, c)" by (cases a)
  from Cons.prems a have len: "col_len c = n" and rest: "all_len cols n"
    by (auto simp: all_len_def)
  from Cons.IH[OF rest] len show ?case
    by (auto simp: a length_notna)
qed

lemma keep_mask_nth:
  assumes "all_len (columns p) (length (index p))"
  shows "length (keep_mask p) = length (index p)"
    and "i < length (index p) \<Longrightarrow> keep_mask p ! i \<longleftrightarrow> (\<exists>(name, c) \<in> set (columns p). notna c ! i)"
  using mask_fold[OF assms] by (simp_all add: keep_mask_def)

lemma temperature_label_neq: "temperature_label \<noteq> ''Humidity (%)''"
  by (simp add: temperature_label_def)

lemma new_plot_Inr:
  assumes "new_plot work hum_col = Inr p"
  shows "\<exists>C. get_col work ''Temperature_C'' = Inr C
      \<and> index p = map RowNo [0..<col_len C]
      \<and> (hum_col = ''<none>'' \<longrightarrow> columns p = [(temperature_label, C)])
      \<and> (hum_col \<noteq> ''<none>'' \<longrightarrow>
           (\<exists>H. get_col work hum_col = Inr H
              \<and> columns p = [(temperature_label, C), (''Humidity (%)'', H)]))"
  using assms temperature_label_neq
  by (auto simp: new_plot_def Let_def split: sum.splits if_splits)

lemma set_x_axis_Inr:
  assumes "set_x_axis to_datetime work x_col p0 = Inr p"
  shows "columns p = columns p0 \<and> length (index p) = length (index p0)
      \<and> (x_col = ''<index>'' \<longrightarrow> p = p0)"
  using assms by (auto simp: set_x_axis_def Let_def split: sum.splits if_splits)

lemma build_plot_Inr:
  assumes "build_plot to_datetime work hum_col x_col = Inr p"
  shows "\<exists>C. get_col work ''Temperature_C'' = Inr C
      \<and> length (index p) = col_len C
      \<and> (x_col = ''<index>'' \<longrightarrow> index p = map RowNo [0..<col_len C])
      \<and> (hum_col = ''<none>'' \<longrightarrow> columns p = [(temperature_label, C)])
      \<and> (hum_col \<noteq> ''<none>'' \<longrightarrow>
           (\<exists>H. get_col work hum_col = Inr H
              \<and> columns p = [(temperature_label, C), (''Humidity (%)'', H)]))"
proof -
  from assms obtain p0 where p0: "new_plot work hum_col = Inr p0"
    "set_x_axis to_datetime work x_col p0 = Inr p"
    by (auto simp: build_plot_def split: sum.splits)
  from new_plot_Inr[OF p0(1)] obtain C where C:
    "get_col work ''Temperature_C'' = Inr C" "index p0 = map RowNo [0..<col_len C]"
    "hum_col = ''<none>'' \<longrightarrow> columns p0 = [(temperature_label, C)]"
    "hum_col \<noteq> ''<none>'' \<longrightarrow>
           (\<exists>H. get_col work hum_col = Inr H
              \<and> columns p0 = [(temperature_label, C), (''Humidity (%)'', H)])"
    by blast
  from set_x_axis_Inr[OF p0(2)] have x: "columns p = columns p0"
    "length (index p) = length (index p0)" "x_col = ''<index>'' \<longrightarrow> p = p0" by auto
  have "length (index p) = col_len C" using x(2) C(2) by simp
  moreover have "x_col = ''<index>'' \<longrightarrow> index p = map RowNo [0..<col_len C]"
    using x(3) C(2) by auto
  ultimately show ?thesis using C(1,3,4) x(1) by auto
qed

text \<open>What the working table holds after lines 97 to 108.\<close>

lemma work_columns:
  assumes wf: "wf_table df"
    and prep: "prepare parse df temp_col hum_col unit = Inr work"
  shows "all_len work (nrows df)"
    and "\<exists>temp. get_col work ''Temperature_C'' = Inr (Float64 temp) \<and> length temp = nrows df"
    and "hum_col \<noteq> ''<none>'' \<Longrightarrow>
           get_col work hum_col = Inr H \<Longrightarrow> \<exists>hum. H = Float64 hum \<and> length hum = nrows df"
proof -
  from prepare_Inr[OF prep] obtain tc w1 w2 xs where p:
    "get_col df temp_col = Inr tc"
    "w1 = set_col df temp_col (to_numeric parse tc)"
    "(if hum_col \<noteq> ''<none>'' then coerce_column parse w1 hum_col else Inr w1) = Inr w2"
    "to_numeric parse tc = Float64 xs"
    "work = set_col w2 ''Temperature_C''
          (Float64 (if unit = deg_F then map (map_option (\<lambda>f. (f - 32) * 5 / 9)) xs else xs))"
    by blast
  let ?n = "nrows df"
  have a0: "all_len df ?n" using wf by (rule wf_table_all_len)
  have ltc: "col_len tc = ?n" using all_len_get_col[OF a0 p(1)] .
  have lxs: "length xs = ?n" using p(4) ltc col_len_to_numeric[of parse tc] by simp
  have a1: "all_len w1 ?n" using a0 ltc by (simp add: p(2) all_len_set_col col_len_to_numeric)
  have a2: "all_len w2 ?n"
  proof (cases "hum_col \<noteq> ''<none>''")
    case False with p(3) a1 show ?thesis by simp
  next
    case True
    with p(3) obtain hc where hc: "get_col w1 hum_col = Inr hc"
      "w2 = set_col w1 hum_col (to_numeric parse hc)" by (auto simp: coerce_column_Inr)
    have "col_len hc = ?n" using all_len_get_col[OF a1 hc(1)] .
    then show ?thesis using a1 by (simp add: hc(2) all_len_set_col col_len_to_numeric)
  qed
  show "all_len work ?n" using a2 lxs by (simp add: p(5) all_len_set_col)
  show "\<exists>temp. get_col work ''Temperature_C'' = Inr (Float64 temp) \<and> length temp = nrows df"
    using lxs by (simp add: p(5) get_col_set_col)
  show "\<exists>hum. H = Float64 hum \<and> length hum = nrows df"
    if h: "hum_col \<noteq> ''<none>''" and g: "get_col work hum_col = Inr H"
  proof -
    from h p(3) obtain hc where hc: "get_col w1 hum_col = Inr hc"
      "w2 = set_col w1 hum_col (to_numeric parse hc)" by (auto simp: coerce_column_Inr)
    have lhc: "col_len hc = ?n" using all_len_get_col[OF a1 hc(1)] .
    obtain ys where ys: "to_numeric parse hc = Float64 ys" "length ys = col_len hc"
      using to_numeric_float by blast
    show ?thesis
    proof (cases "hum_col = ''Temperature_C''")
      case True
      with g lxs show ?thesis by (auto simp: p(5) get_col_set_col)
    next
      case False
      with g have "H = Float64 ys" by (simp add: p(5) hc(2) ys(1) get_col_set_col)
      then show ?thesis using ys(2) lhc by simp
    qed
  qed
qed

lemma dropna_all_frame:
  assumes "all_len (columns p) (length (index p))"
  shows "index (dropna_all p)
           = map ((!) (index p)) (filter ((!) (keep_mask p)) [0..<length (index p)])"
    and "columns (dropna_all p)
           = map (\<lambda>(name, c). (name, keep_rows_col (keep_mask p) c)) (columns p)"
  using keep_mask_nth(1)[OF assms]
  by (simp_all add: dropna_all_def Let_def keep_rows_nth)

lemma keep_rows_col_float:
  "length keep = length xs \<Longrightarrow>
     keep_rows_col keep (Float64 xs)
       = Float64 (map ((!) xs) (filter ((!) keep) [0..<length xs]))"
  by (simp add: keep_rows_nth)

lemma filter_upt_cong:
  "(\<And>i. i < n \<Longrightarrow> P i = Q i) \<Longrightarrow> filter P [0..<n] = filter Q [0..<n]"
  by (rule filter_cong) auto

lemma plot_frame_dropped:
  assumes wf: "wf_table df"
    and prep: "prepare parse df temp_col hum_col unit = Inr work"
    and plot: "build_plot to_datetime work hum_col x_col = Inr p"
  shows "\<exists>temp. get_col work ''Temperature_C'' = Inr (Float64 temp)
      \<and> length temp = nrows df \<and> length (index p) = nrows df
      \<and> (x_col = ''<index>'' \<longrightarrow> index p = map RowNo [0..<nrows df])
      \<and> (hum_col = ''<none>'' \<longrightarrow>
           (let kept = filter (\<lambda>i. temp ! i \<noteq> None) [0..<nrows df]
            in dropna_all p =
                 \<lparr>index = map ((!) (index p)) kept,
                  columns = [(temperature_label, Float64 (map ((!) temp) kept))]\<rparr>))
      \<and> (hum_col \<noteq> ''<none>'' \<longrightarrow>
           (\<exists>hum. get_col work hum_col = Inr (Float64 hum) \<and> length hum = nrows df
              \<and> (let kept = filter (\<lambda>i. temp ! i \<noteq> None \<or> hum ! i \<noteq> None) [0..<nrows df]
                 in dropna_all p =
                      \<lparr>index = map ((!) (index p)) kept,
                       columns = [(temperature_label, Float64 (map ((!) temp) kept)),
                                  (''Humidity (%)'', Float64 (map ((!) hum) kept))]\<rparr>)))"
proof -
  let ?n = "nrows df"
  from work_columns(2)[OF wf prep] obtain temp where temp:
    "get_col work ''Temperature_C'' = Inr (Float64 temp)" "length temp = ?n" by blast
  from build_plot_Inr[OF plot] temp(1) have b:
    "length (index p) = length temp"
    "x_col = ''<index>'' \<longrightarrow> index p = map RowNo [0..<length temp]"
    "hum_col = ''<none>'' \<longrightarrow> columns p = [(temperature_label, Float64 temp)]"
    "hum_col \<noteq> ''<none>'' \<longrightarrow>
           (\<exists>H. get_col work hum_col = Inr H
              \<and> columns p = [(temperature_label, Float64 temp), (''Humidity (%)'', H)])"
    by auto
  have li: "length (index p) = ?n" using b(1) temp(2) by simp
  have none: "hum_col = ''<none>'' \<longrightarrow>
           (let kept = filter (\<lambda>i. temp ! i \<noteq> None) [0..<nrows df]
            in dropna_all p =
                 \<lparr>index = map ((!) (index p)) kept,
                  columns = [(temperature_label, Float64 (map ((!) temp) kept))]\<rparr>)"
  proof
    assume h: "hum_col = ''<none>''"
    with b(3) have cols: "columns p = [(temperature_label, Float64 temp)]" by simp
    have al: "all_len (columns p) (length (index p))"
      using cols li temp(2) by (simp add: all_len_def)
    have lk: "length (keep_mask p) = ?n" using keep_mask_nth(1)[OF al] li by simp
    have k: "filter ((!) (keep_mask p)) [0..<?n] = filter (\<lambda>i. temp ! i \<noteq> None) [0..<?n]"
    proof (rule filter_upt_cong)
      fix i assume "i < ?n"
      then show "keep_mask p ! i = (temp ! i \<noteq> None)"
        using keep_mask_nth(2)[OF al, of i] li temp(2) cols by simp
    qed
    have i: "index (dropna_all p) = map ((!) (index p)) (filter (\<lambda>i. temp ! i \<noteq> None) [0..<?n])"
      using dropna_all_frame(1)[OF al] k li by simp
    have c: "columns (dropna_all p)
        = [(temperature_label, Float64 (map ((!) temp) (filter (\<lambda>i. temp ! i \<noteq> None) [0..<?n])))]"
      using dropna_all_frame(2)[OF al] cols keep_rows_col_float[of "keep_mask p" temp] lk temp(2) k
      by simp
    show "let kept = filter (\<lambda>i. temp ! i \<noteq> None) [0..<nrows df]
            in dropna_all p =
                 \<lparr>index = map ((!) (index p)) kept,
                  columns = [(temperature_label, Float64 (map ((!) temp) kept))]\<rparr>"
      using i c by (simp add: Let_def)
  qed
  have some: "hum_col \<noteq> ''<none>'' \<longrightarrow>
           (\<exists>hum. get_col work hum_col = Inr (Float64 hum) \<and> length hum = nrows df
              \<and> (let kept = filter (\<lambda>i. temp ! i \<noteq> None \<or> hum ! i \<noteq> None) [0..<nrows df]
                 in dropna_all p =
                      \<lparr>index = map ((!) (index p)) kept,
                       columns = [(temperature_label, Float64 (map ((!) temp) kept)),
                                  (''Humidity (%)'', Float64 (map ((!) hum) kept))]\<rparr>))"
  proof
    assume h: "hum_col \<noteq> ''<none>''"
    with b(4) obtain H where H: "get_col work hum_col = Inr H"
      "columns p = [(temperature_label, Float64 temp), (''Humidity (%)'', H)]" by blast
    from work_columns(3)[OF wf prep h H(1)] obtain hum where hum:
      "H = Float64 hum" "length hum = ?n" by blast
    have cols: "columns p = [(temperature_label, Float64 temp), (''Humidity (%)'', Float64 hum)]"
      using H(2) hum(1) by simp
    have al: "all_len (columns p) (length (index p))"
      using cols li temp(2) hum(2) by (simp add: all_len_def)
    have lk: "length (keep_mask p) = ?n" using keep_mask_nth(1)[OF al] li by simp
    have k: "filter ((!) (keep_mask p)) [0..<?n]
           = filter (\<lambda>i. temp ! i \<noteq> None \<or> hum ! i \<noteq> None) [0..<?n]"
    proof (rule filter_upt_cong)
      fix i assume "i < ?n"
      then show "keep_mask p ! i = (temp ! i \<noteq> None \<or> hum ! i \<noteq> None)"
        using keep_mask_nth(2)[OF al, of i] li temp(2) hum(2) cols by simp
    qed
    let ?kept = "filter (\<lambda>i. temp ! i \<noteq> None \<or> hum ! i \<noteq> None) [0..<?n]"
    have i: "index (dropna_all p) = map ((!) (index p)) ?kept"
      using dropna_all_frame(1)[OF al] k li by simp
    have c: "columns (dropna_all p)
        = [(temperature_label, Float64 (map ((!) temp) ?kept)),
           (''Humidity (%)'', Float64 (map ((!) hum) ?kept))]"
      using dropna_all_frame(2)[OF al] cols keep_rows_col_float[of "keep_mask p" temp]
        keep_rows_col_float[of "keep_mask p" hum] lk temp(2) hum(2) k
      by simp
    have "dropna_all p = \<lparr>index = map ((!) (index p)) ?kept,
                       columns = [(temperature_label, Float64 (map ((!) temp) ?kept)),
                                  (''Humidity (%)'', Float64 (map ((!) hum) ?kept))]\<rparr>"
      using i c by simp
    then show "\<exists>hum. get_col work hum_col = Inr (Float64 hum) \<and> length hum = nrows df
              \<and> (let kept = filter (\<lambda>i. temp ! i \<noteq> None \<or> hum ! i \<noteq> None) [0..<nrows df]
                 in dropna_all p =
                      \<lparr>index = map ((!) (index p)) kept,
                       columns = [(temperature_label, Float64 (map ((!) temp) kept)),
                                  (''Humidity (%)'', Float64 (map ((!) hum) kept))]\<rparr>)"
      using H(1) hum by (auto simp: Let_def)
  qed
  have x: "x_col = ''<index>'' \<longrightarrow> index p = map RowNo [0..<nrows df]"
    using b(2) temp(2) by simp
  show ?thesis using temp li x none some by blast
qed

text \<open>
  Claim C3. \<open>dropna_all\<close> removes a row of the plot frame exactly when every plotted series
  is missing there. Without a humidity column the rows left are those with a temperature;
  with one they are those with a temperature or a humidity, so a row with a temperature and
  no humidity stays and a row with neither goes.
\<close>

theorem dropna_rows_spec:
  assumes "wf_table df"
    and "prepare parse df temp_col hum_col unit = Inr work"
    and "build_plot to_datetime work hum_col x_col = Inr p"
  shows "\<exists>temp. get_col work ''Temperature_C'' = Inr (Float64 temp)
      \<and> length temp = nrows df \<and> length (index p) = nrows df
      \<and> (x_col = ''<index>'' \<longrightarrow> index p = map RowNo [0..<nrows df])
      \<and> (hum_col = ''<none>'' \<longrightarrow>
           (let kept = filter (\<lambda>i. temp ! i \<noteq> None) [0..<nrows df]
            in dropna_all p =
                 \<lparr>index = map ((!) (index p)) kept,
                  columns = [(temperature_label, Float64 (map ((!) temp) kept))]\<rparr>))
      \<and> (hum_col \<noteq> ''<none>'' \<longrightarrow>
           (\<exists>hum. get_col work hum_col = Inr (Float64 hum) \<and> length hum = nrows df
              \<and> (let kept = filter (\<lambda>i. temp ! i \<noteq> None \<or> hum ! i \<noteq> None) [0..<nrows df]
                 in dropna_all p =
                      \<lparr>index = map ((!) (index p)) kept,
                       columns = [(temperature_label, Float64 (map ((!) temp) kept)),
                                  (''Humidity (%)'', Float64 (map ((!) hum) kept))]\<rparr>)))"
  using assms by (rule plot_frame_dropped)

lemma demo_prepare: "prepare parse_digits demo_table ''temp'' ''hum'' deg_F = Inr demo_work"
  by (simp add: demo_table_def demo_work_def prepare_def coerce_column_def add_celsius_def
      parse_digits_def digit_val_def)

lemma demo_build: "build_plot no_timestamps demo_work ''hum'' ''<index>'' = Inr demo_plot"
  by (simp add: demo_work_def demo_plot_def build_plot_def new_plot_def set_x_axis_def
      temperature_label_def upt_conv_Cons)

lemma demo_wf: "wf_table demo_table"
  by (simp add: demo_table_def wf_table_def column_names_def nrows_def)

theorem dropna_rows_spec_witness:
  "wf_table demo_table
   \<and> prepare parse_digits demo_table ''temp'' ''hum'' deg_F = Inr demo_work
   \<and> build_plot no_timestamps demo_work ''hum'' ''<index>'' = Inr demo_plot
   \<and> dropna_all demo_plot =
       \<lparr>index = [RowNo 0, RowNo 2, RowNo 3],
        columns = [(temperature_label, Float64 [Some 0, None, Some 100]),
                   (''Humidity (%)'', Float64 [Some 5, Some 7, None])]\<rparr>"
proof -
  from dropna_rows_spec[OF demo_wf demo_prepare demo_build] obtain temp hum where
    t: "get_col demo_work ''Temperature_C'' = Inr (Float64 temp)"
    and h: "get_col demo_work ''hum'' = Inr (Float64 hum)"
    and d: "let kept = filter (\<lambda>i. temp ! i \<noteq> None \<or> hum ! i \<noteq> None) [0..<nrows demo_table]
            in dropna_all demo_plot =
                 \<lparr>index = map ((!) (index demo_plot)) kept,
                  columns = [(temperature_label, Float64 (map ((!) temp) kept)),
                             (''Humidity (%)'', Float64 (map ((!) hum) kept))]\<rparr>"
    by auto
  have temp: "temp = [Some 0, None, None, Some 100]" using t by (simp add: demo_work_def)
  have hum: "hum = [Some 5, None, Some 7, None]" using h by (simp add: demo_work_def)
  have n: "[0..<nrows demo_table] = [0, 1, 2, 3]"
    by (simp add: demo_table_def nrows_def upt_conv_Cons)
  have "dropna_all demo_plot =
       \<lparr>index = [RowNo 0, RowNo 2, RowNo 3],
        columns = [(temperature_label, Float64 [Some 0, None, Some 100]),
                   (''Humidity (%)'', Float64 [Some 5, Some 7, None])]\<rparr>"
    using d unfolding temp hum n by (simp add: demo_plot_def Let_def)
  then show ?thesis using demo_wf demo_prepare demo_build by simp
qed

section \<open>The run\<close>

lemma keep_rows_map_filter: "keep_rows (map P xs) xs = filter P xs"
  by (induction xs) (simp_all add: keep_rows_Nil keep_rows_Cons)

lemma series_dropna_float:
  "series_dropna (Float64 xs) = Float64 (filter (\<lambda>x. x \<noteq> None) xs)"
  by (simp add: series_dropna_def keep_rows_map_filter)

lemma map_filter_id: "List.map_filter id xs = map the (filter (\<lambda>x. x \<noteq> None) xs)"
  by (induction xs) (auto simp: List.map_filter_simps split: option.splits)

text \<open>Rows that \<open>dropna\<close> removes hold no temperature, so the values that are left are the same.\<close>

lemma kept_values:
  assumes "length temp = n" and "\<And>i. i < n \<Longrightarrow> temp ! i \<noteq> None \<Longrightarrow> Q i"
  shows "filter (\<lambda>x. x \<noteq> None) (map ((!) temp) (filter Q [0..<n]))
       = filter (\<lambda>x. x \<noteq> None) temp"
proof -
  have "filter (\<lambda>x. x \<noteq> None) (map ((!) temp) (filter Q [0..<n]))
      = map ((!) temp) (filter (\<lambda>i. temp ! i \<noteq> None) (filter Q [0..<n]))"
    by (simp add: filter_map comp_def)
  also have "filter (\<lambda>i. temp ! i \<noteq> None) (filter Q [0..<n])
      = filter (\<lambda>i. temp ! i \<noteq> None) [0..<n]"
    using assms(2) by (auto intro: filter_cong)
  also have "map ((!) temp) (filter (\<lambda>i. temp ! i \<noteq> None) [0..<n])
      = filter (\<lambda>x. x \<noteq> None) (map ((!) temp) [0..<n])"
    by (simp add: filter_map comp_def)
  also have "map ((!) temp) [0..<n] = temp"
    using assms(1) map_nth[of temp] by simp
  finally show ?thesis .
qed

lemma no_valid_temperature_dropped:
  assumes "length temp = n"
    and "\<And>i. i < n \<Longrightarrow> temp ! i \<noteq> None \<Longrightarrow> Q i"
  shows "no_valid_temperature
           \<lparr>index = map f (filter Q [0..<n]),
            columns = (temperature_label, Float64 (map ((!) temp) (filter Q [0..<n]))) # rest\<rparr>
         = Inr (\<forall>x \<in> set temp. x = None)"
proof -
  let ?ys = "map ((!) temp) (filter Q [0..<n])"
  have v: "filter (\<lambda>x. x \<noteq> None) ?ys = filter (\<lambda>x. x \<noteq> None) temp"
    using kept_values[OF assms] .
  have e: "(filter (\<lambda>x. x \<noteq> None) temp = []) \<longleftrightarrow> (\<forall>x \<in> set temp. x = None)"
    by (simp add: filter_empty_conv)
  show ?thesis
  proof (cases "filter Q [0..<n] = []")
    case True
    then have "filter (\<lambda>x. x \<noteq> None) ?ys = []" by simp
    with v e have "\<forall>x \<in> set temp. x = None" by simp
    then show ?thesis using True by (simp add: no_valid_temperature_def frame_empty_def)
  next
    case False
    then show ?thesis using v e
      by (simp add: no_valid_temperature_def frame_empty_def series_dropna_float)
  qed
qed

text \<open>The plot frame after \<open>dropna\<close>, as the check of line 126 and the statistics see it.\<close>

lemma dropped_temperature:
  assumes wf: "wf_table df"
    and prep: "prepare parse df temp_col hum_col unit = Inr work"
    and plot: "build_plot to_datetime work hum_col x_col = Inr p"
  shows "\<exists>temp ys. get_col work ''Temperature_C'' = Inr (Float64 temp)
      \<and> length temp = nrows df
      \<and> get_col (columns (dropna_all p)) temperature_label = Inr (Float64 ys)
      \<and> filter (\<lambda>x. x \<noteq> None) ys = filter (\<lambda>x. x \<noteq> None) temp
      \<and> length (index (dropna_all p)) \<le> nrows df
      \<and> no_valid_temperature (dropna_all p) = Inr (\<forall>x \<in> set temp. x = None)"
proof -
  let ?n = "nrows df"
  from plot_frame_dropped[OF wf prep plot] obtain temp where t:
    "get_col work ''Temperature_C'' = Inr (Float64 temp)" "length temp = ?n"
    "hum_col = ''<none>'' \<longrightarrow>
           (let kept = filter (\<lambda>i. temp ! i \<noteq> None) [0..<nrows df]
            in dropna_all p =
                 \<lparr>index = map ((!) (index p)) kept,
                  columns = [(temperature_label, Float64 (map ((!) temp) kept))]\<rparr>)"
    "hum_col \<noteq> ''<none>'' \<longrightarrow>
           (\<exists>hum. get_col work hum_col = Inr (Float64 hum) \<and> length hum = nrows df
              \<and> (let kept = filter (\<lambda>i. temp ! i \<noteq> None \<or> hum ! i \<noteq> None) [0..<nrows df]
                 in dropna_all p =
                      \<lparr>index = map ((!) (index p)) kept,
                       columns = [(temperature_label, Float64 (map ((!) temp) kept)),
                                  (''Humidity (%)'', Float64 (map ((!) hum) kept))]\<rparr>))"
    by blast
  have main: "\<exists>ys. get_col (columns (dropna_all p)) temperature_label = Inr (Float64 ys)
      \<and> filter (\<lambda>x. x \<noteq> None) ys = filter (\<lambda>x. x \<noteq> None) temp
      \<and> length (index (dropna_all p)) \<le> nrows df
      \<and> no_valid_temperature (dropna_all p) = Inr (\<forall>x \<in> set temp. x = None)"
    if Q: "\<And>i. i < ?n \<Longrightarrow> temp ! i \<noteq> None \<Longrightarrow> Q i"
      and d: "dropna_all p = \<lparr>index = map ((!) (index p)) (filter Q [0..<?n]),
            columns = (temperature_label, Float64 (map ((!) temp) (filter Q [0..<?n]))) # rest\<rparr>"
    for Q rest
  proof -
    let ?ys = "map ((!) temp) (filter Q [0..<?n])"
    have g: "get_col (columns (dropna_all p)) temperature_label = Inr (Float64 ?ys)"
      by (simp add: d)
    have v: "filter (\<lambda>x. x \<noteq> None) ?ys = filter (\<lambda>x. x \<noteq> None) temp"
      using kept_values[OF t(2) Q] .
    have "length (filter Q [0..<?n]) \<le> length [0..<?n]" by (rule length_filter_le)
    then have l: "length (index (dropna_all p)) \<le> ?n" by (simp add: d)
    have c: "no_valid_temperature (dropna_all p) = Inr (\<forall>x \<in> set temp. x = None)"
      unfolding d using no_valid_temperature_dropped[OF t(2) Q] .
    show ?thesis using g v l c by (intro exI[of _ ?ys] conjI)
  qed
  have "\<exists>ys. get_col (columns (dropna_all p)) temperature_label = Inr (Float64 ys)
      \<and> filter (\<lambda>x. x \<noteq> None) ys = filter (\<lambda>x. x \<noteq> None) temp
      \<and> length (index (dropna_all p)) \<le> nrows df
      \<and> no_valid_temperature (dropna_all p) = Inr (\<forall>x \<in> set temp. x = None)"
  proof (cases "hum_col = ''<none>''")
    case True
    with t(3) have "dropna_all p =
        \<lparr>index = map ((!) (index p)) (filter (\<lambda>i. temp ! i \<noteq> None) [0..<?n]),
         columns = (temperature_label,
                    Float64 (map ((!) temp) (filter (\<lambda>i. temp ! i \<noteq> None) [0..<?n]))) # []\<rparr>"
      by (simp add: Let_def)
    then show ?thesis by (rule main[rotated]) simp
  next
    case False
    with t(4) obtain hum where h: "let kept = filter (\<lambda>i. temp ! i \<noteq> None \<or> hum ! i \<noteq> None) [0..<nrows df]
                 in dropna_all p =
                      \<lparr>index = map ((!) (index p)) kept,
                       columns = [(temperature_label, Float64 (map ((!) temp) kept)),
                                  (''Humidity (%)'', Float64 (map ((!) hum) kept))]\<rparr>"
      by blast
    have "dropna_all p =
        \<lparr>index = map ((!) (index p)) (filter (\<lambda>i. temp ! i \<noteq> None \<or> hum ! i \<noteq> None) [0..<?n]),
         columns = (temperature_label,
                    Float64 (map ((!) temp) (filter (\<lambda>i. temp ! i \<noteq> None \<or> hum ! i \<noteq> None) [0..<?n])))
                   # [(''Humidity (%)'', Float64 (map ((!) hum)
                          (filter (\<lambda>i. temp ! i \<noteq> None \<or> hum ! i \<noteq> None) [0..<?n])))]\<rparr>"
      using h by (simp add: Let_def)
    then show ?thesis by (rule main[rotated]) simp
  qed
  then obtain ys where "get_col (columns (dropna_all p)) temperature_label = Inr (Float64 ys)"
      "filter (\<lambda>x. x \<noteq> None) ys = filter (\<lambda>x. x \<noteq> None) temp"
      "length (index (dropna_all p)) \<le> nrows df"
      "no_valid_temperature (dropna_all p) = Inr (\<forall>x \<in> set temp. x = None)"
    by blast
  then show ?thesis using t(1,2) by (intro exI[of _ temp] exI[of _ ys] conjI)
qed

lemma run_EmptyCsv:
  "run parse to_datetime df temp_col hum_col unit x_col = Inl EmptyCsv \<longleftrightarrow> df_empty df"
  by (simp add: run_def Let_def split: sum.splits bool.splits)

lemma run_reaches_check:
  assumes "\<not> df_empty df"
    and "prepare parse df temp_col hum_col unit = Inr work"
    and "build_plot to_datetime work hum_col x_col = Inr p"
    and "no_valid_temperature (dropna_all p) = Inr b"
  shows "run parse to_datetime df temp_col hum_col unit x_col =
           (if b then Inl NoValidTemperature
            else (case render work (dropna_all p) of
                    Inl e \<Rightarrow> Inl (Raised e)
                  | Inr r \<Rightarrow> Inr r))"
  using assms by (simp add: run_def Let_def)

lemma run_Inr:
  assumes "run parse to_datetime df temp_col hum_col unit x_col = Inr r"
  shows "\<not> df_empty df \<and> (\<exists>work p.
      prepare parse df temp_col hum_col unit = Inr work
      \<and> build_plot to_datetime work hum_col x_col = Inr p
      \<and> no_valid_temperature (dropna_all p) = Inr False
      \<and> render work (dropna_all p) = Inr r)"
  using assms by (auto simp: run_def Let_def split: sum.splits bool.splits if_splits)

lemma render_Inr:
  assumes "render work plot_df = Inr r"
  shows "\<exists>tc vals d. get_col (columns plot_df) temperature_label = Inr tc
      \<and> float_values tc = Inr vals \<and> export work = Inr d
      \<and> avg_temp r = series_mean vals \<and> min_temp r = series_min vals
      \<and> max_temp r = series_max vals \<and> chart r = plot_df \<and> raw_data r = work
      \<and> temp_values r = take 1000 vals \<and> download_button r = d"
  using assms by (auto simp: render_def split: sum.splits)

lemma export_Inr:
  assumes "export work = Inr d"
  shows "\<exists>c. get_col work ''Temperature_C'' = Inr c
      \<and> data d = set_col work temperature_label c
      \<and> file_name d = ''weather_processed.csv'' \<and> mime d = ''text/csv''"
  using assms by (auto simp: export_def Let_def split: sum.splits)

lemma all_missing_iff:
  assumes "filter (\<lambda>x. x \<noteq> None) ys = filter (\<lambda>x. x \<noteq> None) (temp :: real option list)"
  shows "(\<forall>y \<in> set ys. y = None) \<longleftrightarrow> (\<forall>x \<in> set temp. x = None)"
proof -
  have "(filter (\<lambda>x. x \<noteq> None) ys = []) \<longleftrightarrow> (\<forall>y \<in> set ys. y = None)"
    by (simp add: filter_empty_conv)
  moreover have "(filter (\<lambda>x. x \<noteq> None) temp = []) \<longleftrightarrow> (\<forall>x \<in> set temp. x = None)"
    by (simp add: filter_empty_conv)
  ultimately show ?thesis using assms by simp
qed

lemma text_column_all_missing:
  assumes prep: "prepare parse df temp_col hum_col unit = Inr work"
    and obj: "get_col df temp_col = Inr (Object cs)"
    and non: "\<forall>c \<in> set cs. \<exists>s. c = Text s \<and> parse s = None"
    and g: "get_col work ''Temperature_C'' = Inr (Float64 temp)"
  shows "\<forall>x \<in> set temp. x = None"
proof -
  from prepare_Inr[OF prep] obj obtain w2 xs where p:
    "to_numeric parse (Object cs) = Float64 xs"
    "work = set_col w2 ''Temperature_C''
          (Float64 (if unit = deg_F then map (map_option (\<lambda>f. (f - 32) * 5 / 9)) xs else xs))"
    by auto
  have xs: "xs = map (coerce parse) cs" using p(1) by simp
  have "\<forall>c \<in> set cs. coerce parse c = None" using non by auto
  then have n: "\<forall>x \<in> set xs. x = None" by (simp add: xs)
  have "temp = (if unit = deg_F then map (map_option (\<lambda>f. (f - 32) * 5 / 9)) xs else xs)"
    using g p(2) by (simp add: get_col_set_col)
  then show ?thesis using n by auto
qed

lemmas run_simps =
  run_def df_empty_def nrows_def prepare_def coerce_column_def
  add_celsius_def build_plot_def new_plot_def set_x_axis_def temperature_label_def
  dropna_all_def keep_mask_def keep_rows_def no_valid_temperature_def frame_empty_def
  series_dropna_def render_def export_def series_mean_def List.map_filter_def
  upt_conv_Cons parse_digits_def digit_val_def deg_C_def deg_F_def degree_def

lemma text_prepare:
  "prepare parse_digits text_table ''temp'' ''hum'' deg_C
     = Inr [(''temp'', Float64 [None, None]), (''hum'', Float64 [Some 50, Some 10]),
            (''Temperature_C'', Float64 [None, None])]"
  by (simp add: text_table_def run_simps)

lemma text_build:
  "build_plot no_timestamps
     [(''temp'', Float64 [None, None]), (''hum'', Float64 [Some 50, Some 10]),
      (''Temperature_C'', Float64 [None, None])] ''hum'' ''<index>''
     = Inr \<lparr>index = [RowNo 0, RowNo 1],
            columns = [(temperature_label, Float64 [None, None]),
                       (''Humidity (%)'', Float64 [Some 50, Some 10])]\<rparr>"
  by (simp add: run_simps)

text \<open>
  Claim C4. A run that gets as far as the check of line 126 stops with
  \<open>NoValidTemperature\<close> exactly when no row of the plot frame holds a temperature after
  \<open>dropna\<close>, and then it renders no statistics. This stop differs from \<open>EmptyCsv\<close>, which
  is the result exactly for an empty table. A temperature column that holds only texts
  that are no numbers ends in \<open>NoValidTemperature\<close>.
\<close>

theorem no_usable_data_spec:
  "(run parse to_datetime df temp_col hum_col unit x_col = Inl EmptyCsv \<longleftrightarrow> df_empty df)
   \<and> NoValidTemperature \<noteq> EmptyCsv
   \<and> (\<not> df_empty df \<and> wf_table df
        \<and> prepare parse df temp_col hum_col unit = Inr work
        \<and> build_plot to_datetime work hum_col x_col = Inr p \<longrightarrow>
        (\<exists>ys. get_col (columns (dropna_all p)) temperature_label = Inr (Float64 ys)
           \<and> (run parse to_datetime df temp_col hum_col unit x_col = Inl NoValidTemperature
                \<longleftrightarrow> (\<forall>y \<in> set ys. y = None))
           \<and> ((\<forall>y \<in> set ys. y = None) \<longrightarrow>
                (\<forall>r. run parse to_datetime df temp_col hum_col unit x_col \<noteq> Inr r)))
        \<and> ((\<exists>cs. get_col df temp_col = Inr (Object cs)
                \<and> (\<forall>c \<in> set cs. \<exists>s. c = Text s \<and> parse s = None)) \<longrightarrow>
             run parse to_datetime df temp_col hum_col unit x_col = Inl NoValidTemperature))"
proof (intro conjI impI)
  show "run parse to_datetime df temp_col hum_col unit x_col = Inl EmptyCsv \<longleftrightarrow> df_empty df"
    by (rule run_EmptyCsv)
  show "NoValidTemperature \<noteq> EmptyCsv" by simp
next
  assume a: "\<not> df_empty df \<and> wf_table df
        \<and> prepare parse df temp_col hum_col unit = Inr work
        \<and> build_plot to_datetime work hum_col x_col = Inr p"
  then have ne: "\<not> df_empty df" and wf: "wf_table df"
    and prep: "prepare parse df temp_col hum_col unit = Inr work"
    and plot: "build_plot to_datetime work hum_col x_col = Inr p" by auto
  from dropped_temperature[OF wf prep plot] obtain temp ys where d:
    "get_col work ''Temperature_C'' = Inr (Float64 temp)"
    "get_col (columns (dropna_all p)) temperature_label = Inr (Float64 ys)"
    "filter (\<lambda>x. x \<noteq> None) ys = filter (\<lambda>x. x \<noteq> None) temp"
    "no_valid_temperature (dropna_all p) = Inr (\<forall>x \<in> set temp. x = None)"
    by blast
  have eq: "(\<forall>y \<in> set ys. y = None) \<longleftrightarrow> (\<forall>x \<in> set temp. x = None)"
    using all_missing_iff[OF d(3)] .
  have r: "run parse to_datetime df temp_col hum_col unit x_col =
           (if (\<forall>x \<in> set temp. x = None) then Inl NoValidTemperature
            else (case render work (dropna_all p) of
                    Inl e \<Rightarrow> Inl (Raised e)
                  | Inr r \<Rightarrow> Inr r))"
    using run_reaches_check[OF ne prep plot d(4)] .
  have iff: "run parse to_datetime df temp_col hum_col unit x_col = Inl NoValidTemperature
                \<longleftrightarrow> (\<forall>y \<in> set ys. y = None)"
    unfolding r eq by (simp split: sum.splits)
  have nostats: "(\<forall>y \<in> set ys. y = None) \<longrightarrow>
                (\<forall>r. run parse to_datetime df temp_col hum_col unit x_col \<noteq> Inr r)"
    using iff by auto
  show "\<exists>ys. get_col (columns (dropna_all p)) temperature_label = Inr (Float64 ys)
           \<and> (run parse to_datetime df temp_col hum_col unit x_col = Inl NoValidTemperature
                \<longleftrightarrow> (\<forall>y \<in> set ys. y = None))
           \<and> ((\<forall>y \<in> set ys. y = None) \<longrightarrow>
                (\<forall>r. run parse to_datetime df temp_col hum_col unit x_col \<noteq> Inr r))"
    using d(2) iff nostats by (intro exI[of _ ys] conjI)
  assume "\<exists>cs. get_col df temp_col = Inr (Object cs)
                \<and> (\<forall>c \<in> set cs. \<exists>s. c = Text s \<and> parse s = None)"
  then obtain cs where cs: "get_col df temp_col = Inr (Object cs)"
    "\<forall>c \<in> set cs. \<exists>s. c = Text s \<and> parse s = None" by blast
  have "\<forall>x \<in> set temp. x = None"
    using text_column_all_missing[OF prep cs d(1)] .
  then show "run parse to_datetime df temp_col hum_col unit x_col = Inl NoValidTemperature"
    using iff eq by simp
qed

theorem no_usable_data_spec_witness:
  "run parse_digits no_timestamps text_table ''temp'' ''hum'' deg_C ''<index>''
     = Inl NoValidTemperature
   \<and> run parse_digits no_timestamps [] ''temp'' ''hum'' deg_C ''<index>'' = Inl EmptyCsv"
proof -
  have ne: "\<not> df_empty text_table" by (simp add: text_table_def df_empty_def nrows_def)
  have wf: "wf_table text_table"
    by (simp add: text_table_def wf_table_def column_names_def nrows_def)
  have cs: "\<exists>cs. get_col text_table ''temp'' = Inr (Object cs)
                \<and> (\<forall>c \<in> set cs. \<exists>s. c = Text s \<and> parse_digits s = None)"
    by (simp add: text_table_def parse_digits_def digit_val_def)
  have a: "run parse_digits no_timestamps text_table ''temp'' ''hum'' deg_C ''<index>''
     = Inl NoValidTemperature"
    using no_usable_data_spec[of parse_digits no_timestamps text_table "''temp''" "''hum''" deg_C
        "''<index>''"
        "[(''temp'', Float64 [None, None]), (''hum'', Float64 [Some 50, Some 10]),
          (''Temperature_C'', Float64 [None, None])]"
        "\<lparr>index = [RowNo 0, RowNo 1],
            columns = [(temperature_label, Float64 [None, None]),
                       (''Humidity (%)'', Float64 [Some 50, Some 10])]\<rparr>"]
      ne wf text_prepare text_build cs
    by blast
  have "df_empty []" by (simp add: df_empty_def)
  then have b: "run parse_digits no_timestamps [] ''temp'' ''hum'' deg_C ''<index>'' = Inl EmptyCsv"
    using no_usable_data_spec[of parse_digits no_timestamps "[]" "''temp''" "''hum''" deg_C
        "''<index>''"]
    by blast
  show ?thesis using a b by simp
qed

subsection \<open>Statistics\<close>

lemma series_min_Min: "vals \<noteq> [] \<Longrightarrow> series_min vals = Some (Min (set vals))"
proof (cases vals)
  case Nil
  assume "vals \<noteq> []"
  with Nil show ?thesis by simp
next
  case (Cons v vs)
  have "Min (set (v # vs)) = fold min vs v" by (rule Min.set_eq_fold)
  then show ?thesis using Cons by simp
qed

lemma series_max_Max: "vals \<noteq> [] \<Longrightarrow> series_max vals = Some (Max (set vals))"
proof (cases vals)
  case Nil
  assume "vals \<noteq> []"
  with Nil show ?thesis by simp
next
  case (Cons v vs)
  have "Max (set (v # vs)) = fold max vs v" by (rule Max.set_eq_fold)
  then show ?thesis using Cons by simp
qed

lemma set_col_nonempty: "set_col t name c \<noteq> []"
  by (cases t) (auto split: if_splits)

text \<open>A finished run, taken apart.\<close>

lemma run_report:
  assumes wf: "wf_table df"
    and run: "run parse to_datetime df temp_col hum_col unit x_col = Inr r"
  shows "\<exists>work temp vals.
      prepare parse df temp_col hum_col unit = Inr work
      \<and> raw_data r = work
      \<and> get_col work ''Temperature_C'' = Inr (Float64 temp) \<and> length temp = nrows df
      \<and> vals = map the (filter (\<lambda>x. x \<noteq> None) temp) \<and> vals \<noteq> []
      \<and> avg_temp r = series_mean vals \<and> min_temp r = series_min vals
      \<and> max_temp r = series_max vals \<and> temp_values r = take 1000 vals
      \<and> length (index (chart r)) \<le> nrows df
      \<and> data (download_button r) = set_col work temperature_label (Float64 temp)
      \<and> file_name (download_button r) = ''weather_processed.csv''
      \<and> mime (download_button r) = ''text/csv''"
proof -
  from run_Inr[OF run] obtain work p where w:
    "prepare parse df temp_col hum_col unit = Inr work"
    "build_plot to_datetime work hum_col x_col = Inr p"
    "no_valid_temperature (dropna_all p) = Inr False"
    "render work (dropna_all p) = Inr r" by blast
  from dropped_temperature[OF wf w(1,2)] obtain temp ys where d:
    "get_col work ''Temperature_C'' = Inr (Float64 temp)" "length temp = nrows df"
    "get_col (columns (dropna_all p)) temperature_label = Inr (Float64 ys)"
    "filter (\<lambda>x. x \<noteq> None) ys = filter (\<lambda>x. x \<noteq> None) temp"
    "length (index (dropna_all p)) \<le> nrows df"
    "no_valid_temperature (dropna_all p) = Inr (\<forall>x \<in> set temp. x = None)"
    by blast
  from render_Inr[OF w(4)] d(3) obtain vals dl where r:
    "float_values (Float64 ys) = Inr vals" "export work = Inr dl"
    "avg_temp r = series_mean vals" "min_temp r = series_min vals"
    "max_temp r = series_max vals" "chart r = dropna_all p" "raw_data r = work"
    "temp_values r = take 1000 vals" "download_button r = dl"
    by auto
  have vals: "vals = map the (filter (\<lambda>x. x \<noteq> None) temp)"
    using r(1) d(4) by (simp add: map_filter_id)
  have "\<not> (\<forall>x \<in> set temp. x = None)" using w(3) d(6) by simp
  then have ne: "vals \<noteq> []" by (simp add: vals filter_empty_conv)
  from export_Inr[OF r(2)] d(1) have e:
    "data dl = set_col work temperature_label (Float64 temp)"
    "file_name dl = ''weather_processed.csv''" "mime dl = ''text/csv''" by auto
  have l: "length (index (chart r)) \<le> nrows df" using d(5) r(6) by simp
  show ?thesis
    using w(1) r(7) d(1,2) vals ne r(3,4,5,8) l e r(9)
    by (intro exI[of _ work] exI[of _ temp] exI[of _ vals]) simp
qed

lemma scenario_run:
  "\<exists>r. run parse to_datetime scenario_table ''temp'' ''hum'' deg_F ''<index>'' = Inr r
      \<and> get_col (raw_data r) ''Temperature_C'' = Inr (Float64 [Some 0, Some 100])
      \<and> avg_temp r = Some 50 \<and> min_temp r = Some 0 \<and> max_temp r = Some 100"
  by (simp add: scenario_table_def run_def df_empty_def nrows_def prepare_def coerce_column_def
      add_celsius_def build_plot_def new_plot_def set_x_axis_def temperature_label_def
      dropna_all_def keep_mask_def keep_rows_def no_valid_temperature_def frame_empty_def
      series_dropna_def render_def export_def series_mean_def List.map_filter_def
      upt_conv_Cons)

lemma scenario_run_no_humidity:
  "\<exists>r. run parse to_datetime scenario_table ''temp'' ''<none>'' deg_F ''<index>'' = Inr r
      \<and> get_col (raw_data r) ''Temperature_C'' = Inr (Float64 [Some 0, Some 100])
      \<and> avg_temp r = Some 50 \<and> min_temp r = Some 0 \<and> max_temp r = Some 100"
  by (simp add: scenario_table_def run_def df_empty_def nrows_def prepare_def coerce_column_def
      add_celsius_def build_plot_def new_plot_def set_x_axis_def temperature_label_def
      dropna_all_def keep_mask_def keep_rows_def no_valid_temperature_def frame_empty_def
      series_dropna_def render_def export_def series_mean_def List.map_filter_def
      upt_conv_Cons)

lemma scenario_run_report:
  "run parse_digits no_timestamps scenario_table ''temp'' ''hum'' deg_F ''<index>''
     = Inr scenario_report"
  by (simp add: scenario_table_def scenario_report_def run_simps)

lemma scenario_wf: "wf_table scenario_table"
  by (simp add: scenario_table_def wf_table_def column_names_def nrows_def)

text \<open>A run is finished whenever some temperature is present.\<close>

lemma length_cells_of: "length (cells_of c) = col_len c"
  by (cases c) auto

lemma build_plot_total:
  assumes tc: "get_col work ''Temperature_C'' = Inr C"
    and hum: "hum_col = ''<none>'' \<or> (\<exists>H. get_col work hum_col = Inr H)"
    and x: "x_col = ''<index>'' \<or>
            (\<exists>xc. get_col work x_col = Inr xc \<and> col_len xc = col_len C
                  \<and> length (to_datetime xc) = col_len xc)"
  shows "\<exists>p. build_plot (to_datetime :: column \<Rightarrow> 'ts option list) work hum_col x_col = Inr p"
proof -
  have "\<exists>p0 :: 'ts frame. new_plot work hum_col = Inr p0
            \<and> index p0 = map RowNo [0..<col_len C]"
  proof (cases "hum_col = ''<none>''")
    case True
    then show ?thesis using tc by (simp add: new_plot_def Let_def)
  next
    case False
    with hum obtain H where "get_col work hum_col = Inr H" by blast
    then show ?thesis using tc False by (simp add: new_plot_def Let_def)
  qed
  then obtain p0 :: "'ts frame" where p0: "new_plot work hum_col = Inr p0"
    "index p0 = map RowNo [0..<col_len C]" by blast
  have "\<exists>p. set_x_axis to_datetime work x_col p0 = Inr p"
  proof (cases "x_col = ''<index>''")
    case True
    then show ?thesis by (simp add: set_x_axis_def)
  next
    case False
    with x obtain xc where xc: "get_col work x_col = Inr xc" "col_len xc = col_len C"
      "length (to_datetime xc) = col_len xc" by blast
    have "length (where_notna (to_datetime xc) (cells_of xc)) = length (index p0)"
      using xc(2,3) p0(2) by (simp add: where_notna_def length_cells_of)
    then show ?thesis using False xc(1) by (simp add: set_x_axis_def Let_def)
  qed
  then show ?thesis using p0(1) by (simp add: build_plot_def)
qed

lemma render_total:
  assumes "get_col (columns plot_df) temperature_label = Inr (Float64 ys)"
    and "get_col work ''Temperature_C'' = Inr c"
  shows "\<exists>r. render work plot_df = Inr r"
  using assms by (simp add: render_def export_def)

lemma run_total:
  assumes wf: "wf_table df"
    and tc: "get_col df temp_col = Inr tc"
    and xs: "to_numeric parse tc = Float64 xs"
    and some: "\<exists>x \<in> set xs. x \<noteq> None"
    and hum: "hum_col = ''<none>'' \<or> hum_col \<in> set (column_names df)"
    and x: "x_col = ''<index>'' \<or>
            (x_col \<in> set (column_names df) \<and> (\<forall>c. length (to_datetime c) = col_len c))"
  shows "\<exists>r. run parse to_datetime df temp_col hum_col unit x_col = Inr r"
proof -
  have tn: "temp_col \<in> set (column_names df)"
    using get_col_Inr[OF tc] by (force simp: column_names_def)
  from prepare_total[OF tn hum] obtain work where
    prep: "prepare parse df temp_col hum_col unit = Inr work" by blast
  have al: "all_len work (nrows df)" using work_columns(1)[OF wf prep] .
  from prepare_Inr[OF prep] tc xs obtain w2 where w:
    "work = set_col w2 ''Temperature_C''
          (Float64 (if unit = deg_F then map (map_option (\<lambda>f. (f - 32) * 5 / 9)) xs else xs))"
    by auto
  let ?temp = "if unit = deg_F then map (map_option (\<lambda>f. (f - 32) * 5 / 9)) xs else xs"
  have gt: "get_col work ''Temperature_C'' = Inr (Float64 ?temp)"
    by (simp add: w get_col_set_col)
  from some obtain y where y: "Some y \<in> set xs" by auto
  have st: "\<not> (\<forall>x \<in> set ?temp. x = None)"
  proof (cases "unit = deg_F")
    case True
    have "map_option (\<lambda>f. (f - 32) * 5 / 9) (Some y)
            \<in> set (map (map_option (\<lambda>f. (f - 32) * 5 / 9)) xs)"
      using y by (simp add: image_iff) force
    then have "Some ((y - 32) * 5 / 9) \<in> set ?temp" using True by simp
    then show ?thesis by blast
  next
    case False
    then show ?thesis using y by auto
  qed
  have lt: "length ?temp = nrows df" using all_len_get_col[OF al gt] by simp
  have "length xs = nrows df" using lt by (simp split: if_splits)
  then have ne: "\<not> df_empty df" using some tc
    by (cases xs) (auto simp: df_empty_def)
  from prepare_columns[OF prep] have names: "column_names work =
           (if ''Temperature_C'' \<in> set (column_names df) then column_names df
            else column_names df @ [''Temperature_C''])" by blast
  have hw: "hum_col = ''<none>'' \<or> (\<exists>H. get_col work hum_col = Inr H)"
  proof (cases "hum_col = ''<none>''")
    case True then show ?thesis by simp
  next
    case False
    with hum have "hum_col \<in> set (column_names work)" by (simp add: names)
    then show ?thesis using get_col_present by blast
  qed
  have xw: "x_col = ''<index>'' \<or>
            (\<exists>xc. get_col work x_col = Inr xc \<and> col_len xc = col_len (Float64 ?temp)
                  \<and> length (to_datetime xc) = col_len xc)"
  proof (cases "x_col = ''<index>''")
    case True then show ?thesis by simp
  next
    case False
    with x have xn: "x_col \<in> set (column_names work)"
      and td: "\<forall>c. length (to_datetime c) = col_len c" by (simp_all add: names)
    from xn obtain xc where xc: "get_col work x_col = Inr xc" using get_col_present by blast
    have "col_len xc = nrows df" using all_len_get_col[OF al xc] .
    then show ?thesis using xc td lt by auto
  qed
  from build_plot_total[OF gt hw xw] obtain p where
    plot: "build_plot to_datetime work hum_col x_col = Inr p" by blast
  from dropped_temperature[OF wf prep plot] gt obtain ys where d:
    "get_col (columns (dropna_all p)) temperature_label = Inr (Float64 ys)"
    "no_valid_temperature (dropna_all p) = Inr (\<forall>x \<in> set ?temp. x = None)"
    by auto
  have nv: "no_valid_temperature (dropna_all p) = Inr False" using d(2) st by simp
  from render_total[OF d(1) gt] obtain r where r: "render work (dropna_all p) = Inr r" by blast
  have "run parse to_datetime df temp_col hum_col unit x_col = Inr r"
    using run_reaches_check[OF ne prep plot nv] r by simp
  then show ?thesis by blast
qed

lemma demo_run_raw:
  "run parse_digits no_timestamps demo_table ''temp'' ''hum'' deg_F ''<index>'' = Inr r \<Longrightarrow>
   get_col (raw_data r) ''Temperature_C'' = Inr (Float64 [Some 0, None, None, Some 100])"
  by (auto simp add: demo_table_def run_simps)

text \<open>
  Claim C8. For the rows (32, 50) and (212, 10) with unit Fahrenheit the Celsius series is
  0 and 100, the mean is 50, the minimum 0 and the maximum 100, with the humidity column
  plotted or not and whatever the two library parsers are. In every finished run the
  three statistics are taken over the entries of the Celsius series that are not missing,
  and a run on a table with at least one temperature is finished, whatever else is
  missing: missing entries are skipped.
\<close>

theorem stats_spec:
  "(\<exists>r. run parse to_datetime scenario_table ''temp'' ''hum'' deg_F ''<index>'' = Inr r
      \<and> get_col (raw_data r) ''Temperature_C'' = Inr (Float64 [Some 0, Some 100])
      \<and> avg_temp r = Some 50 \<and> min_temp r = Some 0 \<and> max_temp r = Some 100)
   \<and> (\<exists>r. run parse to_datetime scenario_table ''temp'' ''<none>'' deg_F ''<index>'' = Inr r
      \<and> get_col (raw_data r) ''Temperature_C'' = Inr (Float64 [Some 0, Some 100])
      \<and> avg_temp r = Some 50 \<and> min_temp r = Some 0 \<and> max_temp r = Some 100)
   \<and> (wf_table df \<and> run parse to_datetime df temp_col hum_col unit x_col = Inr r \<longrightarrow>
        (\<exists>temp vals. get_col (raw_data r) ''Temperature_C'' = Inr (Float64 temp)
           \<and> vals = map the (filter (\<lambda>x. x \<noteq> None) temp) \<and> vals \<noteq> []
           \<and> avg_temp r = Some (sum_list vals / real (length vals))
           \<and> min_temp r = Some (Min (set vals))
           \<and> max_temp r = Some (Max (set vals))))
   \<and> (wf_table df \<and> get_col df temp_col = Inr tc \<and> to_numeric parse tc = Float64 xs
        \<and> (\<exists>x \<in> set xs. x \<noteq> None)
        \<and> (hum_col = ''<none>'' \<or> hum_col \<in> set (column_names df))
        \<and> (x_col = ''<index>'' \<or>
             (x_col \<in> set (column_names df) \<and> (\<forall>c. length (to_datetime c) = col_len c))) \<longrightarrow>
        (\<exists>r' temp vals. run parse to_datetime df temp_col hum_col unit x_col = Inr r'
           \<and> get_col (raw_data r') ''Temperature_C'' = Inr (Float64 temp)
           \<and> vals = map the (filter (\<lambda>x. x \<noteq> None) temp) \<and> vals \<noteq> []
           \<and> avg_temp r' = Some (sum_list vals / real (length vals))
           \<and> min_temp r' = Some (Min (set vals))
           \<and> max_temp r' = Some (Max (set vals))))"
proof -
  have general: "\<exists>temp vals. get_col (raw_data q) ''Temperature_C'' = Inr (Float64 temp)
           \<and> vals = map the (filter (\<lambda>x. x \<noteq> None) temp) \<and> vals \<noteq> []
           \<and> avg_temp q = Some (sum_list vals / real (length vals))
           \<and> min_temp q = Some (Min (set vals))
           \<and> max_temp q = Some (Max (set vals))"
    if wf: "wf_table df"
      and run: "run parse to_datetime df temp_col hum_col unit x_col = Inr q" for q
  proof -
    from run_report[OF wf run] obtain work temp vals where w:
      "raw_data q = work" "get_col work ''Temperature_C'' = Inr (Float64 temp)"
      "vals = map the (filter (\<lambda>x. x \<noteq> None) temp)" "vals \<noteq> []"
      "avg_temp q = series_mean vals" "min_temp q = series_min vals"
      "max_temp q = series_max vals" by blast
    have "avg_temp q = Some (sum_list vals / real (length vals))"
      using w(4,5) by (simp add: series_mean_def)
    moreover have "min_temp q = Some (Min (set vals))"
      using w(4,6) by (simp add: series_min_Min)
    moreover have "max_temp q = Some (Max (set vals))"
      using w(4,7) by (simp add: series_max_Max)
    ultimately show ?thesis
      using w(1,2,3,4) by (intro exI[of _ temp] exI[of _ vals]) simp
  qed
  have c3: "wf_table df \<and> run parse to_datetime df temp_col hum_col unit x_col = Inr r \<longrightarrow>
        (\<exists>temp vals. get_col (raw_data r) ''Temperature_C'' = Inr (Float64 temp)
           \<and> vals = map the (filter (\<lambda>x. x \<noteq> None) temp) \<and> vals \<noteq> []
           \<and> avg_temp r = Some (sum_list vals / real (length vals))
           \<and> min_temp r = Some (Min (set vals))
           \<and> max_temp r = Some (Max (set vals)))"
    using general by blast
  have c4: "wf_table df \<and> get_col df temp_col = Inr tc \<and> to_numeric parse tc = Float64 xs
        \<and> (\<exists>x \<in> set xs. x \<noteq> None)
        \<and> (hum_col = ''<none>'' \<or> hum_col \<in> set (column_names df))
        \<and> (x_col = ''<index>'' \<or>
             (x_col \<in> set (column_names df) \<and> (\<forall>c. length (to_datetime c) = col_len c))) \<longrightarrow>
        (\<exists>r' temp vals. run parse to_datetime df temp_col hum_col unit x_col = Inr r'
           \<and> get_col (raw_data r') ''Temperature_C'' = Inr (Float64 temp)
           \<and> vals = map the (filter (\<lambda>x. x \<noteq> None) temp) \<and> vals \<noteq> []
           \<and> avg_temp r' = Some (sum_list vals / real (length vals))
           \<and> min_temp r' = Some (Min (set vals))
           \<and> max_temp r' = Some (Max (set vals)))"
  proof
    assume a: "wf_table df \<and> get_col df temp_col = Inr tc \<and> to_numeric parse tc = Float64 xs
        \<and> (\<exists>x \<in> set xs. x \<noteq> None)
        \<and> (hum_col = ''<none>'' \<or> hum_col \<in> set (column_names df))
        \<and> (x_col = ''<index>'' \<or>
             (x_col \<in> set (column_names df) \<and> (\<forall>c. length (to_datetime c) = col_len c)))"
    then have wf: "wf_table df" and tc: "get_col df temp_col = Inr tc"
      and xs: "to_numeric parse tc = Float64 xs" and some: "\<exists>x \<in> set xs. x \<noteq> None"
      and hum: "hum_col = ''<none>'' \<or> hum_col \<in> set (column_names df)"
      and x: "x_col = ''<index>'' \<or>
             (x_col \<in> set (column_names df) \<and> (\<forall>c. length (to_datetime c) = col_len c))"
      by simp_all
    from run_total[OF wf tc xs some hum x] obtain q where
      q: "run parse to_datetime df temp_col hum_col unit x_col = Inr q" by blast
    from general[OF wf q] q show "\<exists>r' temp vals.
           run parse to_datetime df temp_col hum_col unit x_col = Inr r'
           \<and> get_col (raw_data r') ''Temperature_C'' = Inr (Float64 temp)
           \<and> vals = map the (filter (\<lambda>x. x \<noteq> None) temp) \<and> vals \<noteq> []
           \<and> avg_temp r' = Some (sum_list vals / real (length vals))
           \<and> min_temp r' = Some (Min (set vals))
           \<and> max_temp r' = Some (Max (set vals))"
      by blast
  qed
  show ?thesis
    using scenario_run[of parse to_datetime] scenario_run_no_humidity[of parse to_datetime] c3 c4
    by (intro conjI)
qed

theorem stats_spec_witness:
  "run parse_digits no_timestamps scenario_table ''temp'' ''hum'' deg_F ''<index>''
     = Inr scenario_report
   \<and> get_col (raw_data scenario_report) ''Temperature_C'' = Inr (Float64 [Some 0, Some 100])
   \<and> avg_temp scenario_report = Some (sum_list [0, 100] / real (length [0, 100 :: real]))
   \<and> min_temp scenario_report = Some (Min (set [0, 100]))
   \<and> max_temp scenario_report = Some (Max (set [0, 100]))
   \<and> (\<exists>r. run parse_digits no_timestamps demo_table ''temp'' ''hum'' deg_F ''<index>'' = Inr r
         \<and> get_col (raw_data r) ''Temperature_C'' = Inr (Float64 [Some 0, None, None, Some 100])
         \<and> avg_temp r = Some 50 \<and> min_temp r = Some 0 \<and> max_temp r = Some 100)"
proof -
  note spec = stats_spec[of parse_digits no_timestamps scenario_table "''temp''" "''hum''" deg_F
      "''<index>''" scenario_report]
  from spec[THEN conjunct2, THEN conjunct2, THEN conjunct1] scenario_wf scenario_run_report
  obtain temp vals where s:
    "get_col (raw_data scenario_report) ''Temperature_C'' = Inr (Float64 temp)"
    "vals = map the (filter (\<lambda>x. x \<noteq> None) temp)"
    "avg_temp scenario_report = Some (sum_list vals / real (length vals))"
    "min_temp scenario_report = Some (Min (set vals))"
    "max_temp scenario_report = Some (Max (set vals))"
    by blast
  have temp: "temp = [Some 0, Some 100]" using s(1) by (simp add: scenario_report_def)
  have vals: "vals = [0, 100]" using s(2) by (simp add: temp)
  have a: "run parse_digits no_timestamps scenario_table ''temp'' ''hum'' deg_F ''<index>''
     = Inr scenario_report
   \<and> get_col (raw_data scenario_report) ''Temperature_C'' = Inr (Float64 [Some 0, Some 100])
   \<and> avg_temp scenario_report = Some (sum_list [0, 100] / real (length [0, 100 :: real]))
   \<and> min_temp scenario_report = Some (Min (set [0, 100]))
   \<and> max_temp scenario_report = Some (Max (set [0, 100]))"
    using s(1,3,4,5) scenario_run_report unfolding temp vals by simp
  have g: "get_col demo_table ''temp'' = Inr (Object [Text ''32'', Text ''abc'', NA, Text ''212''])"
    by (simp add: demo_table_def)
  have n: "to_numeric parse_digits (Object [Text ''32'', Text ''abc'', NA, Text ''212''])
         = Float64 [Some 32, None, None, Some 212]"
    by (simp add: parse_digits_def digit_val_def)
  have e: "\<exists>x \<in> set [Some 32, None, None, Some (212 :: real)]. x \<noteq> None" by simp
  have h: "''hum'' = ''<none>'' \<or> ''hum'' \<in> set (column_names demo_table)"
    by (simp add: demo_table_def column_names_def)
  note spec4 = stats_spec[where parse = parse_digits and to_datetime = no_timestamps
      and df = demo_table and temp_col = "''temp''" and hum_col = "''hum''" and unit = deg_F
      and x_col = "''<index>''"
      and tc = "Object [Text ''32'', Text ''abc'', NA, Text ''212'']"
      and xs = "[Some 32, None, None, Some 212]",
      THEN conjunct2, THEN conjunct2, THEN conjunct2]
  from spec4 demo_wf g n e h obtain r temp2 vals2 where d:
    "run parse_digits no_timestamps demo_table ''temp'' ''hum'' deg_F ''<index>'' = Inr r"
    "get_col (raw_data r) ''Temperature_C'' = Inr (Float64 temp2)"
    "vals2 = map the (filter (\<lambda>x. x \<noteq> None) temp2)"
    "avg_temp r = Some (sum_list vals2 / real (length vals2))"
    "min_temp r = Some (Min (set vals2))"
    "max_temp r = Some (Max (set vals2))"
    by blast
  have t2: "temp2 = [Some 0, None, None, Some 100]" using demo_run_raw[OF d(1)] d(2) by simp
  have v2: "vals2 = [0, 100]" using d(3) by (simp add: t2)
  have b: "\<exists>r. run parse_digits no_timestamps demo_table ''temp'' ''hum'' deg_F ''<index>'' = Inr r
         \<and> get_col (raw_data r) ''Temperature_C'' = Inr (Float64 [Some 0, None, None, Some 100])
         \<and> avg_temp r = Some 50 \<and> min_temp r = Some 0 \<and> max_temp r = Some 100"
    using d(1,2,4,5,6) unfolding t2 v2 by (intro exI[of _ r]) simp
  show ?thesis using a b by (intro conjI) simp_all
qed

subsection \<open>Export\<close>

lemma demo_run:
  "run parse_digits no_timestamps demo_table ''temp'' ''hum'' deg_F ''<index>'' = Inr r \<Longrightarrow>
   chart r = \<lparr>index = [RowNo 0, RowNo 2, RowNo 3],
        columns = [(temperature_label, Float64 [Some 0, None, Some 100]),
                   (''Humidity (%)'', Float64 [Some 5, Some 7, None])]\<rparr>"
  by (auto simp add: demo_table_def run_simps)

lemma demo_run_total:
  "\<exists>r. run parse_digits no_timestamps demo_table ''temp'' ''hum'' deg_F ''<index>'' = Inr r"
  by (simp add: demo_table_def run_simps)

text \<open>
  Claim C9. The table that is serialised for download has one entry per row of the loaded
  table in every column. It is the working table with the Celsius series added under a
  second name; \<open>dropna\<close> shortens the chart's frame only.
\<close>

theorem export_rows_spec:
  assumes "wf_table df"
    and "run parse to_datetime df temp_col hum_col unit x_col = Inr r"
  shows "(\<forall>(name, c) \<in> set (data (download_button r)). col_len c = nrows df)
     \<and> nrows (data (download_button r)) = nrows df
     \<and> (\<forall>(name, c) \<in> set (raw_data r). col_len c = nrows df)
     \<and> (\<exists>work celsius. prepare parse df temp_col hum_col unit = Inr work
           \<and> get_col work ''Temperature_C'' = Inr celsius
           \<and> data (download_button r) = set_col work temperature_label celsius)
     \<and> length (index (chart r)) \<le> nrows df"
proof -
  from run_report[OF assms] obtain work temp where w:
    "prepare parse df temp_col hum_col unit = Inr work" "raw_data r = work"
    "get_col work ''Temperature_C'' = Inr (Float64 temp)"
    "length temp = nrows df" "length (index (chart r)) \<le> nrows df"
    "data (download_button r) = set_col work temperature_label (Float64 temp)" by blast
  have a: "all_len work (nrows df)" using work_columns(1)[OF assms(1) w(1)] .
  then have b: "all_len (data (download_button r)) (nrows df)"
    using w(4) by (simp add: w(6) all_len_set_col)
  have "data (download_button r) \<noteq> []" by (simp add: w(6) set_col_nonempty)
  then have n: "nrows (data (download_button r)) = nrows df"
    using b by (cases "data (download_button r)") (auto simp: nrows_def all_len_def)
  have e: "\<exists>work celsius. prepare parse df temp_col hum_col unit = Inr work
           \<and> get_col work ''Temperature_C'' = Inr celsius
           \<and> data (download_button r) = set_col work temperature_label celsius"
    using w(1,3,6) by blast
  have c1: "\<forall>(name, c) \<in> set (data (download_button r)). col_len c = nrows df"
    using b by (simp add: all_len_def)
  have c2: "\<forall>(name, c) \<in> set (raw_data r). col_len c = nrows df"
    using a w(2) by (simp add: all_len_def)
  show ?thesis using c1 n c2 e w(5) by (intro conjI)
qed

theorem export_rows_spec_witness:
  "\<exists>r. run parse_digits no_timestamps demo_table ''temp'' ''hum'' deg_F ''<index>'' = Inr r
      \<and> nrows (data (download_button r)) = 4 \<and> nrows demo_table = 4
      \<and> length (index (chart r)) = 3"
proof -
  from demo_run_total obtain r where
    r: "run parse_digits no_timestamps demo_table ''temp'' ''hum'' deg_F ''<index>'' = Inr r"
    by blast
  have n: "nrows demo_table = 4" by (simp add: demo_table_def nrows_def)
  from export_rows_spec[OF demo_wf r] have "nrows (data (download_button r)) = 4"
    using n by simp
  moreover have "length (index (chart r)) = 3" using demo_run[OF r] by simp
  ultimately show ?thesis using r n by blast
qed

text \<open>A finished run without any assumption on the table.\<close>

lemma run_export:
  assumes "run parse to_datetime df temp_col hum_col unit x_col = Inr r"
  shows "\<exists>work celsius. prepare parse df temp_col hum_col unit = Inr work
      \<and> raw_data r = work
      \<and> get_col work ''Temperature_C'' = Inr celsius
      \<and> data (download_button r) = set_col work temperature_label celsius
      \<and> file_name (download_button r) = ''weather_processed.csv''
      \<and> mime (download_button r) = ''text/csv''"
proof -
  from run_Inr[OF assms] obtain work p where w:
    "prepare parse df temp_col hum_col unit = Inr work"
    "render work (dropna_all p) = Inr r" by blast
  from render_Inr[OF w(2)] obtain d where d: "export work = Inr d" "raw_data r = work"
    "download_button r = d" by blast
  from export_Inr[OF d(1)] obtain c where c: "get_col work ''Temperature_C'' = Inr c"
    "data d = set_col work temperature_label c"
    "file_name d = ''weather_processed.csv''" "mime d = ''text/csv''" by blast
  show ?thesis using w(1) d(2,3) c by (intro exI[of _ work] exI[of _ c]) simp
qed

text \<open>
  Claim C6, amended. The download is named \<^verbatim>\<open>weather_processed.csv\<close> with MIME type
  \<^verbatim>\<open>text/csv\<close>. Its columns are the original columns, the working column
  \<^verbatim>\<open>Temperature_C\<close> and the column \<open>temperature_label\<close>, the last two holding the same
  series; each of the two is appended unless the table already has a column of that name.
\<close>

theorem export_file_spec:
  assumes "run parse to_datetime df temp_col hum_col unit x_col = Inr r"
  shows "file_name (download_button r) = ''weather_processed.csv''
     \<and> mime (download_button r) = ''text/csv''
     \<and> set (column_names (data (download_button r)))
         = set (column_names df) \<union> {''Temperature_C'', temperature_label}
     \<and> (''Temperature_C'' \<notin> set (column_names df) \<and> temperature_label \<notin> set (column_names df)
          \<longrightarrow> column_names (data (download_button r))
                = column_names df @ [''Temperature_C'', temperature_label])
     \<and> (\<exists>celsius. get_col (data (download_button r)) ''Temperature_C'' = Inr celsius
            \<and> get_col (data (download_button r)) temperature_label = Inr celsius)"
proof -
  from run_export[OF assms] obtain work celsius where w:
    "prepare parse df temp_col hum_col unit = Inr work"
    "get_col work ''Temperature_C'' = Inr celsius"
    "data (download_button r) = set_col work temperature_label celsius"
    "file_name (download_button r) = ''weather_processed.csv''"
    "mime (download_button r) = ''text/csv''" by blast
  from prepare_columns[OF w(1)] have n: "column_names work =
           (if ''Temperature_C'' \<in> set (column_names df) then column_names df
            else column_names df @ [''Temperature_C''])" by blast
  have l: "temperature_label \<noteq> ''Temperature_C''" by (simp add: temperature_label_def)
  have s: "set (column_names (data (download_button r)))
         = set (column_names df) \<union> {''Temperature_C'', temperature_label}"
    using n by (auto simp: w(3) column_names_set_col split: if_splits)
  have o: "''Temperature_C'' \<notin> set (column_names df) \<and> temperature_label \<notin> set (column_names df)
          \<longrightarrow> column_names (data (download_button r))
                = column_names df @ [''Temperature_C'', temperature_label]"
    using n l by (simp add: w(3) column_names_set_col)
  have c: "get_col (data (download_button r)) ''Temperature_C'' = Inr celsius
            \<and> get_col (data (download_button r)) temperature_label = Inr celsius"
    using w(2) l by (simp add: w(3) get_col_set_col)
  show ?thesis using w(4,5) s o c by blast
qed

theorem export_file_spec_witness:
  "run parse_digits no_timestamps scenario_table ''temp'' ''hum'' deg_F ''<index>''
     = Inr scenario_report
   \<and> file_name (download_button scenario_report) = ''weather_processed.csv''
   \<and> mime (download_button scenario_report) = ''text/csv''
   \<and> column_names (data (download_button scenario_report))
       = [''temp'', ''hum'', ''Temperature_C'', temperature_label]"
proof -
  have n: "column_names scenario_table = [''temp'', ''hum'']"
    by (simp add: scenario_table_def column_names_def)
  have "''Temperature_C'' \<notin> set (column_names scenario_table)
      \<and> temperature_label \<notin> set (column_names scenario_table)"
    by (simp add: n temperature_label_def)
  then show ?thesis
    using export_file_spec[OF scenario_run_report] scenario_run_report n by simp
qed

theorem export_file_counterexample:
  "run parse_digits no_timestamps scenario_table ''temp'' ''hum'' deg_F ''<index>''
     = Inr scenario_report
   \<and> column_names scenario_table = [''temp'', ''hum'']
   \<and> column_names (data (download_button scenario_report))
       = [''temp'', ''hum'', ''Temperature_C'', temperature_label]
   \<and> column_names (data (download_button scenario_report))
       \<noteq> column_names scenario_table @ [temperature_label]"
  using scenario_run_report
  by (simp add: scenario_table_def scenario_report_def column_names_def)

lemma clash_run_report:
  "run parse_digits no_timestamps clash_table ''temp'' ''<none>'' deg_C ''<index>''
     = Inr clash_report"
  by (simp add: clash_table_def clash_report_def run_simps)

text \<open>
  Claim C10, amended. In the displayed working table and in the exported table the chosen
  temperature column, and the humidity column when one is chosen, hold the coerced
  numbers, with texts that are no numbers replaced by missing entries. Every other
  original column is unchanged, except a column named \<^verbatim>\<open>Temperature_C\<close> and, in the
  export, a column named \<open>temperature_label\<close>: these are overwritten with the Celsius
  series.
\<close>

theorem coerced_columns_spec:
  assumes "run parse to_datetime df temp_col hum_col unit x_col = Inr r"
  shows "\<exists>tc. get_col df temp_col = Inr tc
     \<and> (temp_col \<noteq> ''Temperature_C'' \<longrightarrow>
           get_col (raw_data r) temp_col = Inr (to_numeric parse tc))
     \<and> (temp_col \<noteq> ''Temperature_C'' \<and> temp_col \<noteq> temperature_label \<longrightarrow>
           get_col (data (download_button r)) temp_col = Inr (to_numeric parse tc))
     \<and> (\<forall>cs. tc = Object cs \<longrightarrow> to_numeric parse tc = Float64 (map (coerce parse) cs)
             \<and> (\<forall>i < length cs. \<forall>s. cs ! i = Text s \<and> parse s = None \<longrightarrow>
                   map (coerce parse) cs ! i = None))
     \<and> (hum_col \<noteq> ''<none>'' \<longrightarrow>
          (\<exists>hc. get_col df hum_col = Inr hc
             \<and> (hum_col \<noteq> ''Temperature_C'' \<longrightarrow>
                   get_col (raw_data r) hum_col = Inr (to_numeric parse hc))
             \<and> (hum_col \<noteq> ''Temperature_C'' \<and> hum_col \<noteq> temperature_label \<longrightarrow>
                   get_col (data (download_button r)) hum_col = Inr (to_numeric parse hc))))
     \<and> (\<forall>name. name \<noteq> temp_col \<and> (hum_col = ''<none>'' \<or> name \<noteq> hum_col)
             \<and> name \<noteq> ''Temperature_C'' \<longrightarrow>
           get_col (raw_data r) name = get_col df name)
     \<and> (\<forall>name. name \<noteq> temp_col \<and> (hum_col = ''<none>'' \<or> name \<noteq> hum_col)
             \<and> name \<noteq> ''Temperature_C'' \<and> name \<noteq> temperature_label \<longrightarrow>
           get_col (data (download_button r)) name = get_col df name)"
proof -
  from run_export[OF assms] obtain work celsius where w:
    "prepare parse df temp_col hum_col unit = Inr work" "raw_data r = work"
    "data (download_button r) = set_col work temperature_label celsius" by blast
  from prepare_columns[OF w(1)] obtain tc where p:
    "get_col df temp_col = Inr tc"
    "temp_col \<noteq> ''Temperature_C'' \<longrightarrow> get_col work temp_col = Inr (to_numeric parse tc)"
    "hum_col \<noteq> ''<none>'' \<longrightarrow>
           (\<exists>hc. get_col df hum_col = Inr hc
              \<and> (hum_col \<noteq> ''Temperature_C'' \<longrightarrow>
                    get_col work hum_col = Inr (to_numeric parse hc)))"
    "\<forall>name. name \<noteq> temp_col \<and> (hum_col = ''<none>'' \<or> name \<noteq> hum_col)
              \<and> name \<noteq> ''Temperature_C'' \<longrightarrow> get_col work name = get_col df name"
    by blast
  have d: "\<And>name. name \<noteq> temperature_label \<Longrightarrow>
             get_col (data (download_button r)) name = get_col work name"
    by (simp add: w(3) get_col_set_col)
  have 1: "temp_col \<noteq> ''Temperature_C'' \<longrightarrow>
           get_col (raw_data r) temp_col = Inr (to_numeric parse tc)"
    using p(2) w(2) by simp
  have 2: "temp_col \<noteq> ''Temperature_C'' \<and> temp_col \<noteq> temperature_label \<longrightarrow>
           get_col (data (download_button r)) temp_col = Inr (to_numeric parse tc)"
    using p(2) d by simp
  have 3: "\<forall>cs. tc = Object cs \<longrightarrow> to_numeric parse tc = Float64 (map (coerce parse) cs)
             \<and> (\<forall>i < length cs. \<forall>s. cs ! i = Text s \<and> parse s = None \<longrightarrow>
                   map (coerce parse) cs ! i = None)"
    by simp
  have 4: "hum_col \<noteq> ''<none>'' \<longrightarrow>
          (\<exists>hc. get_col df hum_col = Inr hc
             \<and> (hum_col \<noteq> ''Temperature_C'' \<longrightarrow>
                   get_col (raw_data r) hum_col = Inr (to_numeric parse hc))
             \<and> (hum_col \<noteq> ''Temperature_C'' \<and> hum_col \<noteq> temperature_label \<longrightarrow>
                   get_col (data (download_button r)) hum_col = Inr (to_numeric parse hc)))"
  proof
    assume "hum_col \<noteq> ''<none>''"
    with p(3) obtain hc where hc: "get_col df hum_col = Inr hc"
      "hum_col \<noteq> ''Temperature_C'' \<longrightarrow> get_col work hum_col = Inr (to_numeric parse hc)"
      by blast
    show "\<exists>hc. get_col df hum_col = Inr hc
             \<and> (hum_col \<noteq> ''Temperature_C'' \<longrightarrow>
                   get_col (raw_data r) hum_col = Inr (to_numeric parse hc))
             \<and> (hum_col \<noteq> ''Temperature_C'' \<and> hum_col \<noteq> temperature_label \<longrightarrow>
                   get_col (data (download_button r)) hum_col = Inr (to_numeric parse hc))"
      using hc w(2) d by (intro exI[of _ hc]) simp
  qed
  have 5: "\<forall>name. name \<noteq> temp_col \<and> (hum_col = ''<none>'' \<or> name \<noteq> hum_col)
             \<and> name \<noteq> ''Temperature_C'' \<longrightarrow>
           get_col (raw_data r) name = get_col df name"
    using p(4) w(2) by simp
  have 6: "\<forall>name. name \<noteq> temp_col \<and> (hum_col = ''<none>'' \<or> name \<noteq> hum_col)
             \<and> name \<noteq> ''Temperature_C'' \<and> name \<noteq> temperature_label \<longrightarrow>
           get_col (data (download_button r)) name = get_col df name"
    using p(4) d by simp
  show ?thesis using p(1) 1 2 3 4 5 6 by (intro exI[of _ tc] conjI)
qed

theorem coerced_columns_spec_witness:
  "\<exists>r. run parse_digits no_timestamps demo_table ''temp'' ''hum'' deg_F ''<index>'' = Inr r
      \<and> get_col (raw_data r) ''temp'' = Inr (Float64 [Some 32, None, None, Some 212])
      \<and> get_col (data (download_button r)) ''hum'' = Inr (Float64 [Some 5, None, Some 7, None])
      \<and> get_col (raw_data r) ''station'' = Inr (Object [Text ''A'', Text ''B'', Text ''C'', Text ''D''])
      \<and> get_col (data (download_button r)) ''station''
          = Inr (Object [Text ''A'', Text ''B'', Text ''C'', Text ''D''])"
proof -
  from demo_run_total obtain r where
    r: "run parse_digits no_timestamps demo_table ''temp'' ''hum'' deg_F ''<index>'' = Inr r"
    by blast
  from coerced_columns_spec[OF r] obtain tc where all:
    "get_col demo_table ''temp'' = Inr tc
     \<and> (''temp'' \<noteq> ''Temperature_C'' \<longrightarrow>
           get_col (raw_data r) ''temp'' = Inr (to_numeric parse_digits tc))
     \<and> (''temp'' \<noteq> ''Temperature_C'' \<and> ''temp'' \<noteq> temperature_label \<longrightarrow>
           get_col (data (download_button r)) ''temp'' = Inr (to_numeric parse_digits tc))
     \<and> (\<forall>cs. tc = Object cs \<longrightarrow> to_numeric parse_digits tc = Float64 (map (coerce parse_digits) cs)
             \<and> (\<forall>i < length cs. \<forall>s. cs ! i = Text s \<and> parse_digits s = None \<longrightarrow>
                   map (coerce parse_digits) cs ! i = None))
     \<and> (''hum'' \<noteq> ''<none>'' \<longrightarrow>
          (\<exists>hc. get_col demo_table ''hum'' = Inr hc
             \<and> (''hum'' \<noteq> ''Temperature_C'' \<longrightarrow>
                   get_col (raw_data r) ''hum'' = Inr (to_numeric parse_digits hc))
             \<and> (''hum'' \<noteq> ''Temperature_C'' \<and> ''hum'' \<noteq> temperature_label \<longrightarrow>
                   get_col (data (download_button r)) ''hum'' = Inr (to_numeric parse_digits hc))))
     \<and> (\<forall>name. name \<noteq> ''temp'' \<and> (''hum'' = ''<none>'' \<or> name \<noteq> ''hum'')
             \<and> name \<noteq> ''Temperature_C'' \<longrightarrow>
           get_col (raw_data r) name = get_col demo_table name)
     \<and> (\<forall>name. name \<noteq> ''temp'' \<and> (''hum'' = ''<none>'' \<or> name \<noteq> ''hum'')
             \<and> name \<noteq> ''Temperature_C'' \<and> name \<noteq> temperature_label \<longrightarrow>
           get_col (data (download_button r)) name = get_col demo_table name)"
    ..
  have c1: "get_col demo_table ''temp'' = Inr tc" using all by (rule conjunct1)
  have tc: "tc = Object [Text ''32'', Text ''abc'', NA, Text ''212'']"
    using c1 by (simp add: demo_table_def)
  have l: "''hum'' \<noteq> temperature_label" "''station'' \<noteq> temperature_label"
    by (simp_all add: temperature_label_def)
  have 1: "get_col (raw_data r) ''temp'' = Inr (Float64 [Some 32, None, None, Some 212])"
    using all by (simp add: tc parse_digits_def digit_val_def)
  have n: "''hum'' \<noteq> ''<none>''" "''hum'' \<noteq> ''Temperature_C''" by simp_all
  note c5 = all[THEN conjunct2, THEN conjunct2, THEN conjunct2, THEN conjunct2, THEN conjunct1]
  from c5[rule_format, OF n(1)] obtain hc where h:
    "get_col demo_table ''hum'' = Inr hc
       \<and> (''hum'' \<noteq> ''Temperature_C'' \<longrightarrow>
             get_col (raw_data r) ''hum'' = Inr (to_numeric parse_digits hc))
       \<and> (''hum'' \<noteq> ''Temperature_C'' \<and> ''hum'' \<noteq> temperature_label \<longrightarrow>
             get_col (data (download_button r)) ''hum'' = Inr (to_numeric parse_digits hc))"
    ..
  have hc: "get_col demo_table ''hum'' = Inr hc"
    "get_col (data (download_button r)) ''hum'' = Inr (to_numeric parse_digits hc)"
    using h n(2) l(1) by simp_all
  have "hc = Object [Text ''5'', NA, Text ''7'', Text ''x'']"
    using hc(1) by (simp add: demo_table_def)
  then have 2: "get_col (data (download_button r)) ''hum'' = Inr (Float64 [Some 5, None, Some 7, None])"
    using hc(2) by (simp add: parse_digits_def digit_val_def)
  have o: "get_col demo_table ''station'' = Inr (Object [Text ''A'', Text ''B'', Text ''C'', Text ''D''])"
    by (simp add: demo_table_def)
  have 3: "get_col (raw_data r) ''station'' = Inr (Object [Text ''A'', Text ''B'', Text ''C'', Text ''D''])"
    using all o by simp
  have 4: "get_col (data (download_button r)) ''station''
          = Inr (Object [Text ''A'', Text ''B'', Text ''C'', Text ''D''])"
    using all o l(2) by simp
  show ?thesis using r 1 2 3 4 by blast
qed

theorem coerced_columns_counterexample:
  "run parse_digits no_timestamps clash_table ''temp'' ''<none>'' deg_C ''<index>''
     = Inr clash_report
   \<and> get_col clash_table ''Temperature_C'' = Inr (Float64 [Some 100])
   \<and> get_col (raw_data clash_report) ''Temperature_C'' = Inr (Float64 [Some 212])
   \<and> get_col (data (download_button clash_report)) ''Temperature_C'' = Inr (Float64 [Some 212])"
  using clash_run_report by (simp add: clash_table_def clash_report_def)

end
